theory Spec2Isabelle
  imports Complex_Main "HOL-Library.Sublist"
begin

section \<open>Python values used by \<^verbatim>\<open>src/utils/map_display.py\<close>\<close>

text \<open>
  A Python \<^verbatim>\<open>str\<close> is a sequence of Unicode code points: \<^verbatim>\<open>len\<close> and slicing count
  code points, so a string is a list of code points and \<open>lit\<close> embeds an ASCII literal.
  A coordinate of a place record is a finite Python float, given by its value, a real
  number; a decimal such as 48.8584, which is not itself the value of a float, stands for
  the float Python reads from it (\<open>fl\<close> below), and that is what the program computes
  with.
\<close>

type_synonym codepoint = nat
type_synonym pystr = "codepoint list"
type_synonym coord = "real \<times> real"

definition lit :: "string \<Rightarrow> pystr" where
  "lit s = map of_char s"

text \<open>\<^verbatim>\<open>str(n)\<close> for an integer, as an f-string field \<^verbatim>\<open>{n}\<close> prints it.\<close>

fun str_nat :: "nat \<Rightarrow> pystr" where
  "str_nat n = (if n < 10 then [48 + n] else str_nat (n div 10) @ [48 + n mod 10])"

declare str_nat.simps [simp del]

definition str_int :: "int \<Rightarrow> pystr" where
  "str_int i = (if i < 0 then 45 # str_nat (nat (- i)) else str_nat (nat i))"

text \<open>
  \<^verbatim>\<open>str.lower\<close> and \<^verbatim>\<open>str.capitalize\<close>, on the ASCII letters only (the time-of-day
  values are \<^verbatim>\<open>morning\<close>, \<^verbatim>\<open>afternoon\<close>, \<^verbatim>\<open>evening\<close>); other code points are
  left unchanged.
\<close>

definition lower_cp :: "codepoint \<Rightarrow> codepoint" where
  "lower_cp c = (if 65 \<le> c \<and> c \<le> 90 then c + 32 else c)"

definition upper_cp :: "codepoint \<Rightarrow> codepoint" where
  "upper_cp c = (if 97 \<le> c \<and> c \<le> 122 then c - 32 else c)"

definition lower :: "pystr \<Rightarrow> pystr" where
  "lower s = map lower_cp s"

definition capitalize :: "pystr \<Rightarrow> pystr" where
  "capitalize s = (case s of [] \<Rightarrow> [] | c # cs \<Rightarrow> upper_cp c # map lower_cp cs)"

datatype py_error = KeyError string | IndexError | ZeroDivisionError

section \<open>Python floats\<close>

text \<open>
  A Python float is an IEEE 754 binary64 value: a finite value, which is an integer multiple
  of a power of two (53 significant bits, exponents from -1074), negative zero, an infinity
  or a NaN. \<open>Fin r\<close> is the finite float of value \<open>r\<close>, with \<open>Fin 0\<close> for positive zero.
  Every operation rounds its exact result to the nearest float, ties to the even
  significand, and a result of magnitude \<open>2 ^ 1024\<close> or more after rounding is an infinity.
\<close>

datatype pyfloat = Fin real | NegZero | PosInf | NegInf | NaN

text \<open>The integer nearest to a real, the even one of the two at a tie.\<close>

definition round_even :: "real \<Rightarrow> int" where
  "round_even y =
     (let f = \<lfloor>y\<rfloor> in
      if y - of_int f < 1 / 2 then f
      else if 1 / 2 < y - of_int f then f + 1
      else if even f then f else f + 1)"

text \<open>
  Rounding to the binary64 grid with the exponent unbounded above: for \<open>x\<close> with
  \<open>2 ^ e \<le> \<bar>x\<bar> < 2 ^ (e + 1)\<close> the grid spacing is \<open>2 ^ (e - 52)\<close>, and \<open>2 ^ (- 1074)\<close>
  below the normal range.
\<close>

definition round_double :: "real \<Rightarrow> real" where
  "round_double x =
     (if x = 0 then 0
      else let q = max \<lfloor>log 2 \<bar>x\<bar>\<rfloor> (- 1022) - 52
           in sgn x * of_int (round_even (\<bar>x\<bar> / 2 powi q)) * 2 powi q)"

text \<open>The float nearest to a real: what Python reads from a decimal literal, and the result
  of an operation whose exact value is \<open>x\<close>.\<close>

definition fl :: "real \<Rightarrow> pyfloat" where
  "fl x =
     (let r = round_double x in
      if 2 ^ 1024 \<le> r then PosInf
      else if r \<le> - (2 ^ 1024) then NegInf
      else if r = 0 \<and> x < 0 then NegZero
      else Fin r)"

text \<open>\<^verbatim>\<open>x + y\<close> on floats. An exact sum of zero is positive zero, unless both are negative
  zero.\<close>

fun float_add :: "pyfloat \<Rightarrow> pyfloat \<Rightarrow> pyfloat" where
  "float_add NaN y = NaN"
| "float_add x NaN = NaN"
| "float_add PosInf NegInf = NaN"
| "float_add NegInf PosInf = NaN"
| "float_add PosInf y = PosInf"
| "float_add x PosInf = PosInf"
| "float_add NegInf y = NegInf"
| "float_add x NegInf = NegInf"
| "float_add NegZero y = y"
| "float_add x NegZero = x"
| "float_add (Fin a) (Fin b) = (if a + b = 0 then Fin 0 else fl (a + b))"

text \<open>\<^verbatim>\<open>x / n\<close> for a float and a positive \<^verbatim>\<open>int\<close> (a list length, which converts to a float
  without rounding).\<close>

definition float_truediv :: "pyfloat \<Rightarrow> nat \<Rightarrow> pyfloat" where
  "float_truediv x n = (case x of Fin a \<Rightarrow> fl (a / real n) | _ \<Rightarrow> x)"

section \<open>Place records\<close>

text \<open>
  A place is a dictionary. Each key is a field holding \<open>None\<close> when the key is absent
  (for \<^verbatim>\<open>latitude\<close>, \<^verbatim>\<open>longitude\<close>, \<^verbatim>\<open>photo_url\<close> also when the stored value is
  Python's \<^verbatim>\<open>None\<close>: \<^verbatim>\<open>p.get(k)\<close> cannot tell the two apart).
\<close>

record place =
  name :: "pystr option"
  latitude :: "real option"
  longitude :: "real option"
  description :: "pystr option"
  photo_url :: "pystr option"
  day :: "int option"
  time :: "pystr option"

text \<open>Truthiness of \<^verbatim>\<open>p.get(k)\<close> for a number and for a string.\<close>

definition truthy_num :: "real option \<Rightarrow> bool" where
  "truthy_num v = (case v of None \<Rightarrow> False | Some x \<Rightarrow> x \<noteq> 0)"

definition truthy_str :: "pystr option \<Rightarrow> bool" where
  "truthy_str v = (case v of None \<Rightarrow> False | Some s \<Rightarrow> s \<noteq> [])"

text \<open>\<^verbatim>\<open>p[k]\<close> raises \<^verbatim>\<open>KeyError\<close> on an absent key.\<close>

definition getitem :: "string \<Rightarrow> 'a option \<Rightarrow> py_error + 'a" where
  "getitem k v = (case v of None \<Rightarrow> Inl (KeyError k) | Some x \<Rightarrow> Inr x)"

text \<open>\<^verbatim>\<open>place.get('day', 1)\<close>\<close>

definition get_day :: "place \<Rightarrow> int" where
  "get_day p = (case day p of None \<Rightarrow> 1 | Some d \<Rightarrow> d)"

section \<open>The map document\<close>

datatype element =
    is_Marker: Marker (marker_location: coord) (popup_html: pystr) (popup_max_width: int)
      (tooltip: pystr) (icon_html: pystr) (icon_size: "int \<times> int") (icon_anchor: "int \<times> int")
  | is_PolyLine: PolyLine (locations: "coord list") (weight: int) (color: pystr) (opacity: real)
      (dash_array: pystr)
  | is_FitBounds: FitBounds (bounds: "coord list")

record folium_map =
  map_location :: "pyfloat \<times> pyfloat"
  map_zoom_start :: int
  map_tiles :: "pystr option"
  children :: "element list"
  root_html :: "pystr list"

text \<open>\<^verbatim>\<open>folium.Map(location=..., zoom_start=..., tiles=...)\<close>: a map with nothing on it.\<close>

definition folium_Map :: "pyfloat \<times> pyfloat \<Rightarrow> int \<Rightarrow> pystr option \<Rightarrow> folium_map" where
  "folium_Map loc z t =
     \<lparr>map_location = loc, map_zoom_start = z, map_tiles = t, children = [], root_html = []\<rparr>"

text \<open>\<^verbatim>\<open>x.add_to(m)\<close> and \<^verbatim>\<open>m.get_root().html.add_child(folium.Element(h))\<close>\<close>

definition add_to :: "element \<Rightarrow> folium_map \<Rightarrow> folium_map" where
  "add_to x m = m\<lparr>children := children m @ [x]\<rparr>"

definition add_root_html :: "pystr \<Rightarrow> folium_map \<Rightarrow> folium_map" where
  "add_root_html h m = m\<lparr>root_html := root_html m @ [h]\<rparr>"

section \<open>Rendering\<close>

definition day_colors :: "pystr list" where
  "day_colors =
     [lit ''#e74c3c'', lit ''#3498db'', lit ''#2ecc71'', lit ''#9b59b6'',
      lit ''#f39c12'', lit ''#1abc9c'', lit ''#e91e63'']"

definition pin_icon :: pystr where
  "pin_icon = [0x1F4CD]"

definition time_icons :: "pystr \<Rightarrow> pystr option" where
  "time_icons =
     map_of [(lit ''morning'', [0x1F305]), (lit ''afternoon'', [0x2600, 0xFE0F]),
             (lit ''evening'', [0x1F319])]"

text \<open>\<^verbatim>\<open>colors[(day - 1) % len(colors)]\<close>; Python's \<^verbatim>\<open>%\<close> with a positive modulus is \<open>mod\<close>.\<close>

definition color_of_day :: "pystr list \<Rightarrow> int \<Rightarrow> py_error + pystr" where
  "color_of_day colors d =
     (if length colors = 0 then Inl ZeroDivisionError
      else Inr (colors ! nat ((d - 1) mod int (length colors))))"

subsection \<open>\<^verbatim>\<open>_create_popup_html\<close>\<close>

definition create_popup_html ::
  "pystr \<Rightarrow> pystr \<Rightarrow> pystr option \<Rightarrow> int \<Rightarrow> pystr \<Rightarrow> pystr \<Rightarrow> pystr" where
  \<open>create_popup_html nm descr photo d time_of_day time_icon =
    (let photo_html =
           (case photo of
              Some url \<Rightarrow>
                if url \<noteq> [] then
                  lit ''\<newline>'' @
                  lit ''            <img src="'' @
                  url @
                  lit ''"\<newline>'' @
                  lit ''                 style="width: 100%; height: 120px; object-fit: cover; border-radius: 8px; margin-bottom: 8px;"\<newline>'' @
                  lit ''                 onerror="this.style.display='none'"\<newline>'' @
                  lit ''            />\<newline>'' @
                  lit ''        ''
                else []
            | None \<Rightarrow> []);
         time_html =
           (if time_of_day \<noteq> [] then
              lit ''<span style="color: #666; font-size: 12px;">'' @
              time_icon @
              lit '' '' @
              capitalize time_of_day @
              lit ''</span>''
            else []);
         description_html =
           (if descr \<noteq> [] then
              let desc = (if length descr > 150 then take 150 descr @ lit ''...'' else descr)
              in lit ''<p style="margin: 8px 0; color: #444; font-size: 12px;">'' @
                 desc @
                 lit ''</p>''
            else [])
     in lit ''\<newline>'' @
        lit ''        <div style="font-family: -apple-system, BlinkMacSystemFont, 'Segoe UI', Roboto, sans-serif; min-width: 200px;">\<newline>'' @
        lit ''            '' @
        photo_html @
        lit ''\<newline>'' @
        lit ''            <div style="padding: 4px;">\<newline>'' @
        lit ''                <div style="display: flex; justify-content: space-between; align-items: center; margin-bottom: 4px;">\<newline>'' @
        lit ''                    <span style="background: #3498db; color: white; padding: 2px 8px; border-radius: 12px; font-size: 11px;">\<newline>'' @
        lit ''                        Day '' @
        str_int d @
        lit ''\<newline>'' @
        lit ''                    </span>\<newline>'' @
        lit ''                    '' @
        time_html @
        lit ''\<newline>'' @
        lit ''                </div>\<newline>'' @
        lit ''                <h4 style="margin: 4px 0; color: #333; font-size: 14px;">'' @
        nm @
        lit ''</h4>\<newline>'' @
        lit ''                '' @
        description_html @
        lit ''\<newline>'' @
        lit ''            </div>\<newline>'' @
        lit ''        </div>\<newline>'' @
        lit ''    '')\<close>

subsection \<open>\<^verbatim>\<open>_create_legend_html\<close>\<close>

text \<open>The body of the loop over the days: one legend entry appended to \<^verbatim>\<open>legend_items\<close>.\<close>

definition legend_entry :: "pystr \<Rightarrow> int \<Rightarrow> pystr" where
  \<open>legend_entry c d =
     lit ''\<newline>'' @
     lit ''            <div style="display: flex; align-items: center; margin: 4px 0;">\<newline>'' @
     lit ''                <div style="\<newline>'' @
     lit ''                    background-color: '' @
     c @
     lit '';\<newline>'' @
     lit ''                    width: 16px;\<newline>'' @
     lit ''                    height: 16px;\<newline>'' @
     lit ''                    border-radius: 50%;\<newline>'' @
     lit ''                    margin-right: 8px;\<newline>'' @
     lit ''                "></div>\<newline>'' @
     lit ''                <span>Day '' @
     str_int d @
     lit ''</span>\<newline>'' @
     lit ''            </div>\<newline>'' @
     lit ''        ''\<close>

fun legend_loop :: "int list \<Rightarrow> pystr list \<Rightarrow> pystr \<Rightarrow> py_error + pystr" where
  "legend_loop [] colors legend_items = Inr legend_items"
| "legend_loop (d # days) colors legend_items =
     (case color_of_day colors d of
        Inl e \<Rightarrow> Inl e
      | Inr c \<Rightarrow> legend_loop days colors (legend_items @ legend_entry c d))"

definition legend_frame :: "pystr \<Rightarrow> pystr" where
  \<open>legend_frame legend_items =
     lit ''\<newline>'' @
     lit ''        <div style="\<newline>'' @
     lit ''            position: fixed;\<newline>'' @
     lit ''            bottom: 30px;\<newline>'' @
     lit ''            left: 30px;\<newline>'' @
     lit ''            background: white;\<newline>'' @
     lit ''            padding: 12px 16px;\<newline>'' @
     lit ''            border-radius: 8px;\<newline>'' @
     lit ''            box-shadow: 0 2px 10px rgba(0,0,0,0.2);\<newline>'' @
     lit ''            z-index: 1000;\<newline>'' @
     lit ''            font-family: -apple-system, BlinkMacSystemFont, 'Segoe UI', Roboto, sans-serif;\<newline>'' @
     lit ''            font-size: 13px;\<newline>'' @
     lit ''        ">\<newline>'' @
     lit ''            <div style="font-weight: bold; margin-bottom: 8px;">Itinerary</div>\<newline>'' @
     lit ''            '' @
     legend_items @
     lit ''\<newline>'' @
     lit ''        </div>\<newline>'' @
     lit ''    ''\<close>

definition create_legend_html :: "place list \<Rightarrow> pystr list \<Rightarrow> py_error + pystr" where
  "create_legend_html places colors =
     (let days = sorted_list_of_set (set (map get_day places))
      in case legend_loop days colors [] of
           Inl e \<Rightarrow> Inl e
         | Inr legend_items \<Rightarrow> Inr (legend_frame legend_items))"

subsection \<open>\<^verbatim>\<open>create_itinerary_map\<close>\<close>

text \<open>The marker of the \<open>i\<close>-th valid place (\<open>i\<close> counted from 0), lines 83 to 138.\<close>

definition marker_icon_html :: "pystr \<Rightarrow> nat \<Rightarrow> pystr" where
  \<open>marker_icon_html c i =
     lit ''\<newline>'' @
     lit ''                    <div style="\<newline>'' @
     lit ''                        background-color: '' @
     c @
     lit '';\<newline>'' @
     lit ''                        color: white;\<newline>'' @
     lit ''                        border-radius: 50%;\<newline>'' @
     lit ''                        width: 30px;\<newline>'' @
     lit ''                        height: 30px;\<newline>'' @
     lit ''                        display: flex;\<newline>'' @
     lit ''                        align-items: center;\<newline>'' @
     lit ''                        justify-content: center;\<newline>'' @
     lit ''                        font-weight: bold;\<newline>'' @
     lit ''                        font-size: 12px;\<newline>'' @
     lit ''                        border: 2px solid white;\<newline>'' @
     lit ''                        box-shadow: 0 2px 5px rgba(0,0,0,0.3);\<newline>'' @
     lit ''                    ">'' @
     str_nat (i + 1) @
     lit ''</div>\<newline>'' @
     lit ''                ''\<close>

definition make_marker :: "nat \<Rightarrow> place \<Rightarrow> real \<Rightarrow> real \<Rightarrow> py_error + element" where
  "make_marker i p lat lng =
     (let nm = (case name p of None \<Rightarrow> lit ''Stop '' @ str_nat (i + 1) | Some n \<Rightarrow> n);
          descr = (case description p of None \<Rightarrow> [] | Some s \<Rightarrow> s);
          photo = photo_url p;
          d = get_day p;
          time_of_day = (case time p of None \<Rightarrow> [] | Some t \<Rightarrow> t)
      in case color_of_day day_colors d of
           Inl e \<Rightarrow> Inl e
         | Inr c \<Rightarrow>
             let time_icon =
                   (if time_of_day \<noteq> [] then
                      (case time_icons (lower time_of_day) of None \<Rightarrow> pin_icon | Some g \<Rightarrow> g)
                    else pin_icon);
                 popup = create_popup_html nm descr photo d time_of_day time_icon
             in Inr (Marker (lat, lng) popup 300 (lit ''Day '' @ str_int d @ lit '': '' @ nm)
                       (marker_icon_html c i) (30, 30) (15, 15)))"

text \<open>The loop of lines 80 to 138, from index \<open>i\<close> on; the state is the map and
  \<^verbatim>\<open>coordinates_for_line\<close>.\<close>

fun add_markers ::
  "nat \<Rightarrow> place list \<Rightarrow> folium_map \<Rightarrow> coord list \<Rightarrow> py_error + (folium_map \<times> coord list)" where
  "add_markers i [] m coordinates_for_line = Inr (m, coordinates_for_line)"
| "add_markers i (p # rest) m coordinates_for_line =
     (case getitem ''latitude'' (latitude p) of
        Inl e \<Rightarrow> Inl e
      | Inr lat \<Rightarrow>
          (case getitem ''longitude'' (longitude p) of
             Inl e \<Rightarrow> Inl e
           | Inr lng \<Rightarrow>
               (case make_marker i p lat lng of
                  Inl e \<Rightarrow> Inl e
                | Inr mk \<Rightarrow>
                    add_markers (i + 1) rest (add_to mk m) (coordinates_for_line @ [(lat, lng)]))))"

text \<open>The loop of lines 146 to 163; the state is \<^verbatim>\<open>current_day\<close>, \<^verbatim>\<open>day_coords\<close>
  and the map.\<close>

fun day_lines_loop ::
  "place list \<Rightarrow> int \<Rightarrow> coord list \<Rightarrow> folium_map \<Rightarrow> py_error + (int \<times> coord list \<times> folium_map)" where
  "day_lines_loop [] current_day day_coords m = Inr (current_day, day_coords, m)"
| "day_lines_loop (p # rest) current_day day_coords m =
     (let d = get_day p in
      case getitem ''latitude'' (latitude p) of
        Inl e \<Rightarrow> Inl e
      | Inr lat \<Rightarrow>
          (case getitem ''longitude'' (longitude p) of
             Inl e \<Rightarrow> Inl e
           | Inr lng \<Rightarrow>
               if d \<noteq> current_day \<and> day_coords \<noteq> [] then
                 (case color_of_day day_colors current_day of
                    Inl e \<Rightarrow> Inl e
                  | Inr c \<Rightarrow>
                      day_lines_loop rest d ([last day_coords] @ [(lat, lng)])
                        (add_to (PolyLine day_coords 3 c 0.7 (lit ''10'')) m))
               else day_lines_loop rest current_day (day_coords @ [(lat, lng)]) m))"

text \<open>Lines 142 to 174: the body of \<^verbatim>\<open>if len(coordinates_for_line) > 1\<close>.\<close>

definition draw_lines :: "place list \<Rightarrow> folium_map \<Rightarrow> py_error + folium_map" where
  "draw_lines valid_places m =
     (case valid_places of
        [] \<Rightarrow> Inl IndexError
      | p0 # _ \<Rightarrow>
          (case day_lines_loop valid_places (get_day p0) [] m of
             Inl e \<Rightarrow> Inl e
           | Inr (current_day, day_coords, m') \<Rightarrow>
               if day_coords \<noteq> [] then
                 (case color_of_day day_colors current_day of
                    Inl e \<Rightarrow> Inl e
                  | Inr c \<Rightarrow> Inr (add_to (PolyLine day_coords 3 c 0.7 (lit ''10'')) m'))
               else Inr m'))"

text \<open>
  \<^verbatim>\<open>sum(p[k] for p in valid_places)\<close>: the items are added to the accumulator one by one
  from the left, each addition a float addition; the accumulator starts as the \<^verbatim>\<open>int\<close> 0,
  which the first addition converts to the float 0.0. (CPython releases from 3.12 on add a
  compensation term at the end of a float sum, which can change the last bit of a sum of
  three or more items; that is not part of this model.)
\<close>

fun sum_items ::
  "string \<Rightarrow> (place \<Rightarrow> real option) \<Rightarrow> place list \<Rightarrow> pyfloat \<Rightarrow> py_error + pyfloat" where
  "sum_items k f [] acc = Inr acc"
| "sum_items k f (p # ps) acc =
     (case getitem k (f p) of
        Inl e \<Rightarrow> Inl e
      | Inr v \<Rightarrow> sum_items k f ps (float_add acc (fl v)))"

text \<open>\<^verbatim>\<open>x / len(valid_places)\<close>\<close>

definition true_div :: "pyfloat \<Rightarrow> nat \<Rightarrow> py_error + pyfloat" where
  "true_div x n = (if n = 0 then Inl ZeroDivisionError else Inr (float_truediv x n))"

definition valid_place :: "place \<Rightarrow> bool" where
  "valid_place p = (truthy_num (latitude p) \<and> truthy_num (longitude p))"

definition create_itinerary_map ::
  "place list \<Rightarrow> (pyfloat \<times> pyfloat) option \<Rightarrow> int \<Rightarrow> py_error + folium_map" where
  "create_itinerary_map places center zoom_start =
     (if places = [] then Inr (folium_Map (fl 48.8566, fl 2.3522) zoom_start None)
      else
        let valid_places = filter valid_place places in
        if valid_places = [] then Inr (folium_Map (fl 48.8566, fl 2.3522) zoom_start None)
        else
          case (case center of
                  Some c \<Rightarrow> Inr c
                | None \<Rightarrow>
                    (case sum_items ''latitude'' latitude valid_places (Fin 0) of
                       Inl e \<Rightarrow> Inl e
                     | Inr s_lat \<Rightarrow>
                         (case true_div s_lat (length valid_places) of
                            Inl e \<Rightarrow> Inl e
                          | Inr avg_lat \<Rightarrow>
                              (case sum_items ''longitude'' longitude valid_places (Fin 0) of
                                 Inl e \<Rightarrow> Inl e
                               | Inr s_lng \<Rightarrow>
                                   (case true_div s_lng (length valid_places) of
                                      Inl e \<Rightarrow> Inl e
                                    | Inr avg_lng \<Rightarrow> Inr (avg_lat, avg_lng)))))) of
            Inl e \<Rightarrow> Inl e
          | Inr center' \<Rightarrow>
              (case add_markers 0 valid_places
                      (folium_Map center' zoom_start (Some (lit ''cartodbpositron''))) [] of
                 Inl e \<Rightarrow> Inl e
               | Inr (m1, coordinates_for_line) \<Rightarrow>
                   (case (if length coordinates_for_line > 1 then draw_lines valid_places m1
                          else Inr m1) of
                      Inl e \<Rightarrow> Inl e
                    | Inr m2 \<Rightarrow>
                        (case create_legend_html valid_places day_colors of
                           Inl e \<Rightarrow> Inl e
                         | Inr legend_html \<Rightarrow>
                             let m3 = add_root_html legend_html m2
                             in Inr (if length coordinates_for_line > 1
                                     then add_to (FitBounds coordinates_for_line) m3
                                     else m3)))))"

section \<open>Extraction\<close>

text \<open>
  The itinerary data model, as the extractor reads it: \<^verbatim>\<open>activity.name\<close>,
  \<^verbatim>\<open>activity.description\<close>, \<^verbatim>\<open>activity.location\<close>, \<^verbatim>\<open>day.day_number\<close>,
  \<^verbatim>\<open>day.morning\<close>, \<^verbatim>\<open>day.afternoon\<close>, \<^verbatim>\<open>day.evening\<close>, \<^verbatim>\<open>plan.itinerary\<close>.
\<close>

record activity =
  act_name :: pystr
  act_description :: "pystr option"
  act_location :: "pystr option"

record day_plan =
  day_number :: int
  morning :: "activity list"
  afternoon :: "activity list"
  evening :: "activity list"

record travel_plan =
  itinerary :: "day_plan list"

text \<open>
  The lookup collaborator. A match is the dictionary \<^verbatim>\<open>{location: {lat, lng}, place_id}\<close>.
  A call may change the collaborator's state \<open>'s\<close> and either returns or raises an
  \<^verbatim>\<open>Exception\<close>, whose text \<^verbatim>\<open>str(e)\<close> is kept.
\<close>

datatype exn = Exception pystr

record lat_lng =
  lat :: "real option"
  lng :: "real option"

record match =
  location :: "lat_lng option"
  place_id :: "pystr option"

record 's places_client =
  search_places :: "pystr \<Rightarrow> 's \<Rightarrow> (exn + match list) \<times> 's"
  get_place_photo_url :: "pystr \<Rightarrow> 's \<Rightarrow> (exn + pystr option) \<times> 's"

text \<open>The collaborator's state and the lines printed so far.\<close>

type_synonym 's world = "'s \<times> pystr list"

definition error_line :: "activity \<Rightarrow> exn \<Rightarrow> pystr" where
  "error_line a e =
     (case e of Exception msg \<Rightarrow>
        lit ''Error fetching place info for '' @ act_name a @ lit '': '' @ msg)"

text \<open>Lines 332 to 355 of \<^verbatim>\<open>_extract_place_info\<close>: the guarded lookup, which fills the
  candidate record in place. Both collaborator calls are inside the \<^verbatim>\<open>try\<close>, whose
  handler prints one line and falls through, so a raised \<^verbatim>\<open>Exception\<close> ends the
  lookup with the record as filled so far; the function itself has no error result.\<close>

definition lookup_place ::
  "activity \<Rightarrow> place \<Rightarrow> 's places_client option \<Rightarrow> 's world \<Rightarrow> place \<times> 's world" where
  "lookup_place a place0 places_client w =
     (case places_client of
        None \<Rightarrow> (place0, w)
      | Some c \<Rightarrow>
          (case act_location a of
             None \<Rightarrow> (place0, w)
           | Some l \<Rightarrow>
               if l = [] then (place0, w)
               else
                 (case search_places c (act_name a @ lit '' '' @ l) (fst w) of
                    (Inl e, s1) \<Rightarrow> (place0, (s1, snd w @ [error_line a e]))
                  | (Inr results, s1) \<Rightarrow>
                      (case results of
                         [] \<Rightarrow> (place0, (s1, snd w))
                       | best_match # _ \<Rightarrow>
                           let loc = (case location best_match of
                                        None \<Rightarrow> \<lparr>lat = None, lng = None\<rparr>
                                      | Some ll \<Rightarrow> ll);
                               place1 = place0\<lparr>latitude := lat loc, longitude := lng loc\<rparr>
                           in (case place_id best_match of
                                 None \<Rightarrow> (place1, (s1, snd w))
                               | Some pid \<Rightarrow>
                                   if pid = [] then (place1, (s1, snd w))
                                   else
                                     (case get_place_photo_url c pid s1 of
                                        (Inl e, s2) \<Rightarrow>
                                          (place1, (s2, snd w @ [error_line a e]))
                                      | (Inr url, s2) \<Rightarrow>
                                          (if truthy_str url
                                           then place1\<lparr>photo_url := url\<rparr>
                                           else place1,
                                           (s2, snd w))))))))"

definition extract_place_info ::
  "activity \<Rightarrow> int \<Rightarrow> pystr \<Rightarrow> 's places_client option \<Rightarrow> 's world \<Rightarrow> place option \<times> 's world" where
  "extract_place_info a d time_of_day places_client w =
     (let place0 =
            \<lparr>name = Some (act_name a), latitude = None, longitude = None,
             description = Some (case act_description a of None \<Rightarrow> [] | Some s \<Rightarrow> s),
             photo_url = None, day = Some d, time = Some time_of_day\<rparr>;
          r = lookup_place a place0 places_client w
      in (if latitude (fst r) = None \<or> longitude (fst r) = None then None else Some (fst r),
          snd r))"

text \<open>One of the three inner loops of \<^verbatim>\<open>extract_places_from_plan\<close>.\<close>

fun extract_activities ::
  "activity list \<Rightarrow> int \<Rightarrow> pystr \<Rightarrow> 's places_client option \<Rightarrow> place list \<Rightarrow> 's world
     \<Rightarrow> place list \<times> 's world" where
  "extract_activities [] d t c places w = (places, w)"
| "extract_activities (a # rest) d t c places w =
     (case extract_place_info a d t c w of
        (None, w') \<Rightarrow> extract_activities rest d t c places w'
      | (Some p, w') \<Rightarrow> extract_activities rest d t c (places @ [p]) w')"

fun extract_days ::
  "day_plan list \<Rightarrow> 's places_client option \<Rightarrow> place list \<Rightarrow> 's world \<Rightarrow> place list \<times> 's world" where
  "extract_days [] c places w = (places, w)"
| "extract_days (dy # rest) c places w =
     (let day_num = day_number dy;
          r1 = extract_activities (morning dy) day_num (lit ''morning'') c places w;
          r2 = extract_activities (afternoon dy) day_num (lit ''afternoon'') c (fst r1) (snd r1);
          r3 = extract_activities (evening dy) day_num (lit ''evening'') c (fst r2) (snd r2)
      in extract_days rest c (fst r3) (snd r3))"

definition extract_places_from_plan ::
  "travel_plan option \<Rightarrow> 's places_client option \<Rightarrow> 's world \<Rightarrow> place list \<times> 's world" where
  "extract_places_from_plan plan places_client w =
     (case plan of
        None \<Rightarrow> ([], w)
      | Some pl \<Rightarrow>
          if itinerary pl = [] then ([], w)
          else extract_days (itinerary pl) places_client [] w)"

section \<open>Specification-level notions\<close>

definition markers_of :: "folium_map \<Rightarrow> element list" where
  "markers_of m = filter is_Marker (children m)"

definition polylines_of :: "folium_map \<Rightarrow> element list" where
  "polylines_of m = filter is_PolyLine (children m)"

definition coord_of :: "place \<Rightarrow> coord" where
  "coord_of p = (the (latitude p), the (longitude p))"

definition palette_color :: "int \<Rightarrow> pystr" where
  "palette_color d = day_colors ! nat ((d - 1) mod 7)"

definition dashed_line :: "coord list \<Rightarrow> int \<Rightarrow> element" where
  "dashed_line cs d = PolyLine cs 3 (palette_color d) 0.7 (lit ''10'')"

fun day_runs :: "place list \<Rightarrow> place list list" where
  "day_runs [] = []"
| "day_runs (p # ps) =
     (case day_runs ps of
        [] \<Rightarrow> [[p]]
      | r # rs \<Rightarrow> if get_day p = get_day (hd r) then (p # r) # rs else [p] # r # rs)"

fun run_lines :: "coord list \<Rightarrow> place list list \<Rightarrow> element list" where
  "run_lines seed [] = []"
| "run_lines seed (r # rs) =
     dashed_line (seed @ map coord_of r) (get_day (hd r)) # run_lines [coord_of (last r)] rs"

definition open_run_lines :: "int \<Rightarrow> coord list \<Rightarrow> place list list \<Rightarrow> element list" where
  "open_run_lines cd dc runs =
     (case runs of
        [] \<Rightarrow> [dashed_line dc cd]
      | r # rs \<Rightarrow>
          if get_day (hd r) = cd
          then dashed_line (dc @ map coord_of r) cd # run_lines [coord_of (last r)] rs
          else dashed_line dc cd # run_lines [last dc] (r # rs))"

definition mean_center :: "place list \<Rightarrow> pyfloat \<times> pyfloat" where
  "mean_center vs =
     (float_truediv (foldl float_add (Fin 0) (map (\<lambda>p. fl (fst (coord_of p))) vs)) (length vs),
      float_truediv (foldl float_add (Fin 0) (map (\<lambda>p. fl (snd (coord_of p))) vs)) (length vs))"

definition legend_of :: "int list \<Rightarrow> pystr" where
  "legend_of ds = legend_frame (concat (map (\<lambda>d. legend_entry (palette_color d) d) ds))"

text \<open>Reading a decimal numeral back: the value of a digit string, and of an optional minus
  sign followed by a digit string.\<close>

definition digits_value :: "pystr \<Rightarrow> nat" where
  "digits_value s = foldl (\<lambda>acc c. 10 * acc + (c - 48)) 0 s"

definition int_of_str :: "pystr \<Rightarrow> int" where
  "int_of_str s =
     (case s of
        [] \<Rightarrow> 0
      | c # cs \<Rightarrow> if c = 45 then - int (digits_value cs) else int (digits_value s))"

subsection \<open>Example places\<close>

text \<open>Example inputs: a stop with coordinates and a day, a stop without coordinates, and a
  four-stop trip whose days are 1, 1, 2, 1.\<close>

definition stop :: "real \<Rightarrow> real \<Rightarrow> int \<Rightarrow> place" where
  "stop la lo d =
     \<lparr>name = None, latitude = Some la, longitude = Some lo, description = None,
      photo_url = None, day = Some d, time = None\<rparr>"

definition unlocated :: place where
  "unlocated =
     \<lparr>name = Some (lit ''Cafe''), latitude = None, longitude = None, description = None,
      photo_url = None, day = Some 1, time = None\<rparr>"

definition trip :: "place list" where
  "trip = [stop 48.8584 2.2945 1, stop 48.8606 2.3376 1, stop 48.853 2.3499 2, stop 48.8867 2.3431 1]"

subsection \<open>Extraction: the candidate record, match coordinates, the activities of a plan\<close>

text \<open>The candidate record of an activity, before any lookup, and the coordinates a match
  carries (\<^verbatim>\<open>best_match.get('location', {})\<close>, then \<^verbatim>\<open>.get('lat')\<close> and \<^verbatim>\<open>.get('lng')\<close>).\<close>

definition candidate :: "activity \<Rightarrow> int \<Rightarrow> pystr \<Rightarrow> place" where
  "candidate a d time_of_day =
     \<lparr>name = Some (act_name a), latitude = None, longitude = None,
      description = Some (case act_description a of None \<Rightarrow> [] | Some s \<Rightarrow> s),
      photo_url = None, day = Some d, time = Some time_of_day\<rparr>"

definition match_lat :: "match \<Rightarrow> real option" where
  "match_lat b = (case location b of None \<Rightarrow> None | Some ll \<Rightarrow> lat ll)"

definition match_lng :: "match \<Rightarrow> real option" where
  "match_lng b = (case location b of None \<Rightarrow> None | Some ll \<Rightarrow> lng ll)"

definition all_activities :: "travel_plan option \<Rightarrow> activity list" where
  "all_activities plan =
     (case plan of
        None \<Rightarrow> []
      | Some pl \<Rightarrow> concat (map (\<lambda>dy. morning dy @ afternoon dy @ evening dy) (itinerary pl)))"

text \<open>Example collaborators, with a call counter as their state, and an example plan.\<close>

definition louvre_match :: match where
  "louvre_match =
     \<lparr>location = Some \<lparr>lat = Some 48.8606, lng = Some 2.3376\<rparr>, place_id = Some (lit ''abc'')\<rparr>"

definition photo_failing_client :: "nat places_client" where
  "photo_failing_client =
     \<lparr>search_places = (\<lambda>q n. (Inr [louvre_match], n + 1)),
      get_place_photo_url = (\<lambda>pid n. (Inl (Exception (lit ''timeout'')), n + 1))\<rparr>"

definition failing_client :: "nat places_client" where
  "failing_client =
     \<lparr>search_places = (\<lambda>q n. (Inl (Exception (lit ''offline'')), n + 1)),
      get_place_photo_url = (\<lambda>pid n. (Inl (Exception (lit ''offline'')), n + 1))\<rparr>"

definition equator_client :: "nat places_client" where
  "equator_client =
     \<lparr>search_places =
        (\<lambda>q n. (Inr [\<lparr>location = Some \<lparr>lat = Some 0, lng = Some 32.58\<rparr>, place_id = None\<rparr>], n + 1)),
      get_place_photo_url = (\<lambda>pid n. (Inr None, n + 1))\<rparr>"

definition louvre :: activity where
  "louvre = \<lparr>act_name = lit ''Louvre'', act_description = None, act_location = Some (lit ''Paris'')\<rparr>"

definition stroll :: activity where
  "stroll = \<lparr>act_name = lit ''Stroll'', act_description = Some (lit ''by the river''), act_location = None\<rparr>"

definition louvre_plan :: travel_plan where
  "louvre_plan =
     \<lparr>itinerary = [\<lparr>day_number = 1, morning = [louvre], afternoon = [stroll], evening = []\<rparr>]\<rparr>"

definition stroll_plan :: travel_plan where
  "stroll_plan =
     \<lparr>itinerary = [\<lparr>day_number = 1, morning = [stroll], afternoon = [], evening = [stroll]\<rparr>]\<rparr>"

section \<open>Properties of the renderer\<close>

subsection \<open>Evaluating float rounding\<close>

lemma floor_log2_eqI:
  assumes "2 powi e \<le> x" "x < 2 powi (e + 1)"
  shows "\<lfloor>log 2 x\<rfloor> = e"
proof -
  have pos: "0 < x" using assms(1) by (smt (verit) zero_less_power_int zero_less_numeral)
  have a: "(2::real) powr (real_of_int e) = 2 powi e"
    by (rule powr_real_of_int') simp_all
  have "(2::real) powr (real_of_int (e + 1)) = 2 powi (e + 1)"
    by (rule powr_real_of_int') simp_all
  then have b: "(2::real) powr (real_of_int e + 1) = 2 powi (e + 1)"
    by simp
  show ?thesis
    using pos assms unfolding a[symmetric] b[symmetric]
    by (subst floor_log_eq_powr_iff) simp_all
qed

lemma round_double_eval:
  assumes "2 powi e \<le> \<bar>x\<bar>" "\<bar>x\<bar> < 2 powi (e + 1)"
  shows "round_double x =
           sgn x * of_int (round_even (\<bar>x\<bar> / 2 powi (max e (- 1022) - 52)))
             * 2 powi (max e (- 1022) - 52)"
proof -
  have "x \<noteq> 0" using assms(1) by (smt (verit) zero_less_power_int zero_less_numeral)
  then show ?thesis by (simp add: round_double_def floor_log2_eqI[OF assms] Let_def)
qed

lemma fl_fallback:
  "fl 48.8566 = Fin (3437977586790459 / 70368744177664)"
  "fl 2.3522 = Fin (662085440218805 / 281474976710656)"
proof -
  show "fl 48.8566 = Fin (3437977586790459 / 70368744177664)"
    unfolding fl_def
    by (subst round_double_eval[where e = 5]) (simp_all add: round_even_def power_int_minus Let_def)
  show "fl 2.3522 = Fin (662085440218805 / 281474976710656)"
    unfolding fl_def
    by (subst round_double_eval[where e = 1]) (simp_all add: round_even_def power_int_minus Let_def)
qed

subsection \<open>Markers and lines\<close>

lemma color_of_day_palette: "color_of_day day_colors d = Inr (palette_color d)"
  by (simp add: color_of_day_def palette_color_def day_colors_def)

lemma getitem_valid:
  "valid_place p \<Longrightarrow> getitem k (latitude p) = Inr (fst (coord_of p))"
  "valid_place p \<Longrightarrow> getitem k' (longitude p) = Inr (snd (coord_of p))"
  by (auto simp: valid_place_def truthy_num_def getitem_def coord_of_def split: option.splits)

lemma make_marker_ok: "\<exists>mk. make_marker i p la lo = Inr mk \<and> is_Marker mk \<and> marker_location mk = (la, lo)"
  by (simp add: make_marker_def color_of_day_palette Let_def)

lemma add_to_children: "add_to x (m\<lparr>children := cs\<rparr>) = m\<lparr>children := cs @ [x]\<rparr>"
  by (simp add: add_to_def)

lemma add_markers_valid:
  "list_all valid_place ps \<Longrightarrow>
   \<exists>mks. add_markers i ps (m\<lparr>children := cs\<rparr>) cfl = Inr (m\<lparr>children := cs @ mks\<rparr>, cfl @ map coord_of ps)
      \<and> length mks = length ps \<and> list_all is_Marker mks \<and> map marker_location mks = map coord_of ps"
proof (induction ps arbitrary: i cs cfl)
  case Nil
  then show ?case by simp
next
  case (Cons p ps)
  from Cons.prems have vp: "valid_place p" and vps: "list_all valid_place ps" by simp_all
  obtain mk where mk: "make_marker i p (fst (coord_of p)) (snd (coord_of p)) = Inr mk" "is_Marker mk"
     "marker_location mk = coord_of p"
    using make_marker_ok[of i p "fst (coord_of p)" "snd (coord_of p)"] by auto
  from Cons.IH[OF vps, of "i + 1" "cs @ [mk]" "cfl @ [coord_of p]"]
  obtain mks where mks: "add_markers (i + 1) ps (m\<lparr>children := cs @ [mk]\<rparr>) (cfl @ [coord_of p])
       = Inr (m\<lparr>children := (cs @ [mk]) @ mks\<rparr>, (cfl @ [coord_of p]) @ map coord_of ps)"
     "length mks = length ps" "list_all is_Marker mks" "map marker_location mks = map coord_of ps"
    by blast
  show ?case
    apply (rule exI[of _ "mk # mks"])
    using vp mk mks by (simp add: getitem_valid add_to_children)
qed

lemma day_runs_hd: "day_runs ps = r # rs \<Longrightarrow> r \<noteq> [] \<and> hd r = hd ps"
  by (cases ps) (auto split: list.splits if_splits)

lemma day_runs_Nil: "day_runs ps = [] \<longleftrightarrow> ps = []"
  by (cases ps) (auto split: list.splits)

lemma day_lines_loop_runs:
  "list_all valid_place ps \<Longrightarrow> dc \<noteq> [] \<Longrightarrow>
   \<exists>cd' dc' front. day_lines_loop ps cd dc (m\<lparr>children := cs\<rparr>) = Inr (cd', dc', m\<lparr>children := cs @ front\<rparr>)
      \<and> dc' \<noteq> [] \<and> front @ [dashed_line dc' cd'] = open_run_lines cd dc (day_runs ps)"
proof (induction ps arbitrary: cd dc cs)
  case Nil
  then show ?case by (simp add: open_run_lines_def)
next
  case (Cons p ps)
  from Cons.prems have vp: "valid_place p" and vps: "list_all valid_place ps" by simp_all
  show ?case
  proof (cases "get_day p = cd")
    case True
    from Cons.IH[OF vps, of "dc @ [coord_of p]" cd cs]
    obtain cd' dc' front where h:
      "day_lines_loop ps cd (dc @ [coord_of p]) (m\<lparr>children := cs\<rparr>) = Inr (cd', dc', m\<lparr>children := cs @ front\<rparr>)"
      "dc' \<noteq> []" "front @ [dashed_line dc' cd'] = open_run_lines cd (dc @ [coord_of p]) (day_runs ps)"
      by auto
    have "open_run_lines cd (dc @ [coord_of p]) (day_runs ps) = open_run_lines cd dc (day_runs (p # ps))"
      using True by (auto simp: open_run_lines_def split: list.splits dest: day_runs_hd)
    with h True vp show ?thesis
      by (intro exI[of _ cd'] exI[of _ dc'] exI[of _ front])
         (simp add: getitem_valid Let_def del: day_runs.simps)
  next
    case False
    from Cons.IH[OF vps, of "[last dc, coord_of p]" "get_day p" "cs @ [dashed_line dc cd]"]
    obtain cd' dc' front where h:
      "day_lines_loop ps (get_day p) [last dc, coord_of p] (m\<lparr>children := cs @ [dashed_line dc cd]\<rparr>)
         = Inr (cd', dc', m\<lparr>children := (cs @ [dashed_line dc cd]) @ front\<rparr>)"
      "dc' \<noteq> []" "front @ [dashed_line dc' cd'] = open_run_lines (get_day p) [last dc, coord_of p] (day_runs ps)"
      by auto
    have "dashed_line dc cd # open_run_lines (get_day p) [last dc, coord_of p] (day_runs ps)
          = open_run_lines cd dc (day_runs (p # ps))"
      using False by (auto simp: open_run_lines_def split: list.splits dest: day_runs_hd)
    with h False vp Cons.prems(2) show ?thesis
      by (intro exI[of _ cd'] exI[of _ dc'] exI[of _ "dashed_line dc cd # front"])
         (simp add: getitem_valid Let_def color_of_day_palette add_to_children
            dashed_line_def[symmetric] del: day_runs.simps)
  qed
qed

lemma run_lines_open: "open_run_lines (get_day p) [coord_of p] (day_runs ps) = run_lines [] (day_runs (p # ps))"
  by (auto simp: open_run_lines_def split: list.splits dest: day_runs_hd)

lemma draw_lines_runs:
  assumes "list_all valid_place vs" "vs \<noteq> []"
  shows "draw_lines vs (m\<lparr>children := cs\<rparr>) = Inr (m\<lparr>children := cs @ run_lines [] (day_runs vs)\<rparr>)"
proof -
  from assms obtain p ps where vs: "vs = p # ps" and vp: "valid_place p" and vps: "list_all valid_place ps"
    by (cases vs) auto
  from day_lines_loop_runs[OF vps, where dc = "[coord_of p]" and cd = "get_day p" and m = m and cs = cs]
  obtain cd' dc' front where h:
    "day_lines_loop ps (get_day p) [coord_of p] (m\<lparr>children := cs\<rparr>) = Inr (cd', dc', m\<lparr>children := cs @ front\<rparr>)"
    "dc' \<noteq> []" "front @ [dashed_line dc' cd'] = open_run_lines (get_day p) [coord_of p] (day_runs ps)"
    by auto
  have "day_lines_loop vs (get_day p) [] (m\<lparr>children := cs\<rparr>) = Inr (cd', dc', m\<lparr>children := cs @ front\<rparr>)"
    using h(1) vp by (simp add: vs getitem_valid Let_def)
  moreover have "front @ [dashed_line dc' cd'] = run_lines [] (day_runs vs)"
    using h(3) by (simp only: vs run_lines_open)
  ultimately show ?thesis
    using h(2) by (simp add: draw_lines_def vs color_of_day_palette add_to_children dashed_line_def[symmetric] del: day_runs.simps)
qed

lemma legend_loop_palette:
  "legend_loop ds day_colors acc = Inr (acc @ concat (map (\<lambda>d. legend_entry (palette_color d) d) ds))"
  by (induction ds arbitrary: acc) (simp_all add: color_of_day_palette)

lemma create_legend_html_palette:
  "create_legend_html ps day_colors =
     Inr (legend_frame (concat (map (\<lambda>d. legend_entry (palette_color d) d)
            (sorted_list_of_set (get_day ` set ps)))))"
  by (simp add: create_legend_html_def legend_loop_palette)

lemma sum_items_lat:
  "list_all valid_place ps \<Longrightarrow>
   sum_items k latitude ps acc = Inr (foldl float_add acc (map (\<lambda>p. fl (fst (coord_of p))) ps))"
  by (induction ps arbitrary: acc) (simp_all add: getitem_valid)

lemma sum_items_lng:
  "list_all valid_place ps \<Longrightarrow>
   sum_items k longitude ps acc = Inr (foldl float_add acc (map (\<lambda>p. fl (snd (coord_of p))) ps))"
  by (induction ps arbitrary: acc) (simp_all add: getitem_valid)

lemma render_structure:
  assumes "filter valid_place places \<noteq> []"
  shows "\<exists>mks. create_itinerary_map places center zoom =
           Inr \<lparr>map_location = (case center of Some c \<Rightarrow> c | None \<Rightarrow> mean_center (filter valid_place places)),
                map_zoom_start = zoom,
                map_tiles = Some (lit ''cartodbpositron''),
                children = mks @
                  (if length (filter valid_place places) > 1
                   then run_lines [] (day_runs (filter valid_place places))
                        @ [FitBounds (map coord_of (filter valid_place places))]
                   else []),
                root_html = [legend_of (sorted_list_of_set (get_day ` set (filter valid_place places)))]\<rparr>
         \<and> length mks = length (filter valid_place places) \<and> list_all is_Marker mks
         \<and> map marker_location mks = map coord_of (filter valid_place places)"
proof -
  define vs where "vs = filter valid_place places"
  have ne: "vs \<noteq> []" and pne: "places \<noteq> []" using assms by (auto simp: vs_def)
  have val: "list_all valid_place vs" by (simp add: vs_def list_all_iff)
  define c' where "c' = (case center of Some c \<Rightarrow> c | None \<Rightarrow> mean_center vs)"
  define m0 where "m0 = folium_Map c' zoom (Some (lit ''cartodbpositron''))"
  have cen: "(case center of
                  Some c \<Rightarrow> Inr c
                | None \<Rightarrow>
                    (case sum_items ''latitude'' latitude vs (Fin 0) of
                       Inl e \<Rightarrow> Inl e
                     | Inr s_lat \<Rightarrow>
                         (case true_div s_lat (length vs) of
                            Inl e \<Rightarrow> Inl e
                          | Inr avg_lat \<Rightarrow>
                              (case sum_items ''longitude'' longitude vs (Fin 0) of
                                 Inl e \<Rightarrow> Inl e
                               | Inr s_lng \<Rightarrow>
                                   (case true_div s_lng (length vs) of
                                      Inl e \<Rightarrow> Inl e
                                    | Inr avg_lng \<Rightarrow> Inr (avg_lat, avg_lng)))))) = (Inr c' :: py_error + pyfloat \<times> pyfloat)"
    using ne by (simp add: c'_def sum_items_lat[OF val] sum_items_lng[OF val] true_div_def mean_center_def
        split: option.splits)
  from add_markers_valid[OF val, where i = 0 and m = m0 and cs = "[]" and cfl = "[]"]
  obtain mks where mks: "add_markers 0 vs (m0\<lparr>children := []\<rparr>) [] = Inr (m0\<lparr>children := [] @ mks\<rparr>, [] @ map coord_of vs)"
      "length mks = length vs" "list_all is_Marker mks" "map marker_location mks = map coord_of vs"
    by blast
  have m0': "m0\<lparr>children := []\<rparr> = m0" by (simp add: m0_def folium_Map_def)
  have am: "add_markers 0 vs m0 [] = Inr (m0\<lparr>children := mks\<rparr>, map coord_of vs)"
    using mks(1) by (simp add: m0')
  have dl: "draw_lines vs (m0\<lparr>children := mks\<rparr>) = Inr (m0\<lparr>children := mks @ run_lines [] (day_runs vs)\<rparr>)"
    by (rule draw_lines_runs[OF val ne])
  have "create_itinerary_map places center zoom =
           Inr \<lparr>map_location = c', map_zoom_start = zoom,
                map_tiles = Some (lit ''cartodbpositron''),
                children = mks @ (if length vs > 1 then run_lines [] (day_runs vs) @ [FitBounds (map coord_of vs)] else []),
                root_html = [legend_of (sorted_list_of_set (get_day ` set vs))]\<rparr>"
    unfolding create_itinerary_map_def Let_def vs_def[symmetric]
    using pne ne
    by (simp add: cen m0_def[symmetric] am dl create_legend_html_palette legend_of_def add_root_html_def add_to_def)
       (simp add: m0_def folium_Map_def)
  then show ?thesis using mks(2-4) unfolding vs_def c'_def by blast
qed

lemma valid_stop: "valid_place (stop la lo d) \<longleftrightarrow> la \<noteq> 0 \<and> lo \<noteq> 0"
  by (simp add: valid_place_def truthy_num_def stop_def)

lemma get_day_stop: "get_day (stop la lo d) = d"
  by (simp add: get_day_def stop_def)

lemma coord_of_stop: "coord_of (stop la lo d) = (la, lo)"
  by (simp add: coord_of_def stop_def)

lemma fallback_map:
  "filter valid_place places = [] \<Longrightarrow>
   create_itinerary_map places center zoom = Inr (folium_Map (fl 48.8566, fl 2.3522) zoom None)"
  by (simp add: create_itinerary_map_def)

text \<open>
  C4: for an input that is empty, or in which no record passes the coordinate filter,
  rendering returns a map (not an error) centered on the fixed fallback coordinate
  (48.8566, 2.3522), with the zoom level the caller passed and nothing drawn on it. The
  coordinate is the pair of floats Python reads from the two literals.
\<close>

theorem C4_fallback:
  assumes "places = [] \<or> filter valid_place places = []"
  shows "\<exists>m. create_itinerary_map places center zoom = Inr m
           \<and> map_location m = (fl 48.8566, fl 2.3522) \<and> map_zoom_start m = zoom
           \<and> children m = [] \<and> root_html m = []
           \<and> fl 48.8566 = Fin (3437977586790459 / 70368744177664)
           \<and> fl 2.3522 = Fin (662085440218805 / 281474976710656)"
proof -
  from assms have "filter valid_place places = []" by auto
  then have "create_itinerary_map places center zoom = Inr (folium_Map (fl 48.8566, fl 2.3522) zoom None)"
    by (rule fallback_map)
  then show ?thesis
    by (intro exI[of _ "folium_Map (fl 48.8566, fl 2.3522) zoom None"] conjI fl_fallback)
       (simp_all add: folium_Map_def)
qed

theorem C4_fallback_witness:
  "([unlocated, stop 0 2.3522 1] = [] \<or> filter valid_place [unlocated, stop 0 2.3522 1] = [])
   \<and> (\<exists>m. create_itinerary_map [unlocated, stop 0 2.3522 1] (Some (Fin 51.5, Fin (- 0.125))) 7 = Inr m
           \<and> map_location m = (fl 48.8566, fl 2.3522) \<and> map_zoom_start m = 7
           \<and> children m = [] \<and> root_html m = [])"
proof -
  have h: "[unlocated, stop 0 2.3522 1] = [] \<or> filter valid_place [unlocated, stop 0 2.3522 1] = []"
    by (simp add: valid_place_def truthy_num_def unlocated_def stop_def)
  from C4_fallback[OF h, of "Some (Fin 51.5, Fin (- 0.125))" 7] h show ?thesis by blast
qed

lemma run_lines_polylines: "list_all is_PolyLine (run_lines seed rs)"
  by (induction rs arbitrary: seed) (simp_all add: dashed_line_def)

lemma length_run_lines: "length (run_lines seed rs) = length rs"
  by (induction rs arbitrary: seed) simp_all

lemma polyline_not_marker: "is_PolyLine x \<Longrightarrow> \<not> is_Marker x"
  by (cases x) simp_all

lemma filter_markers:
  "list_all is_Marker mks \<Longrightarrow> list_all is_PolyLine ls \<Longrightarrow>
   filter is_Marker (mks @ ls @ fb) = mks @ filter is_Marker fb"
  by (induction mks) (auto simp: list_all_iff filter_empty_conv polyline_not_marker)

lemma render_total: "\<exists>m. create_itinerary_map places center zoom = Inr m"
proof (cases "filter valid_place places = []")
  case True
  then show ?thesis by (simp add: fallback_map)
next
  case False
  from render_structure[OF False, of center zoom] show ?thesis by blast
qed

lemma marker_count:
  assumes "create_itinerary_map places center zoom = Inr m"
  shows "length (markers_of m) = length (filter valid_place places)"
proof (cases "filter valid_place places = []")
  case True
  with assms show ?thesis by (auto simp: fallback_map folium_Map_def markers_of_def)
next
  case False
  from render_structure[OF False, of center zoom] assms
  obtain mks where m: "children m = mks @
                  (if length (filter valid_place places) > 1
                   then run_lines [] (day_runs (filter valid_place places))
                        @ [FitBounds (map coord_of (filter valid_place places))]
                   else [])"
     and l: "length mks = length (filter valid_place places)" "list_all is_Marker mks"
    by auto
  have "filter is_Marker (children m) = mks"
    using filter_markers[OF l(2) run_lines_polylines, of "[]" "day_runs (filter valid_place places)"
        "[FitBounds (map coord_of (filter valid_place places))]"] l(2)
    by (auto simp: m list_all_iff filter_id_conv)
  then show ?thesis by (simp add: markers_of_def l)
qed

text \<open>
  C1: the claim says the number of markers equals the number of input records that have
  both coordinates present. The renderer's filter tests truthiness, so a stop on the
  equator (latitude 0.0) has both coordinates present and gets no marker: of the two
  located stops below only one is drawn.
\<close>

theorem C1_zero_latitude_stop_gets_no_marker:
  "\<exists>m. create_itinerary_map [stop 0 32.58 1, stop 48.8566 2.3522 1] None 12 = Inr m
       \<and> length (markers_of m) = 1
       \<and> length (filter (\<lambda>p. latitude p \<noteq> None \<and> longitude p \<noteq> None)
                          [stop 0 32.58 1, stop 48.8566 2.3522 1]) = 2"
proof -
  obtain m where m: "create_itinerary_map [stop 0 32.58 1, stop 48.8566 2.3522 1] None 12 = Inr m"
    using render_total by blast
  have "length (markers_of m) = 1"
    using marker_count[OF m] by (simp add: valid_stop)
  moreover have "length (filter (\<lambda>p. latitude p \<noteq> None \<and> longitude p \<noteq> None)
                          [stop 0 32.58 1, stop 48.8566 2.3522 1]) = 2"
    by (simp add: stop_def del: not_None_eq)
  ultimately show ?thesis using m by blast
qed

subsection \<open>The center: float arithmetic\<close>

























lemma float_add_overflow: "float_add (Fin (2 ^ 1023)) (Fin (2 ^ 1023)) = PosInf"
proof -
  have "fl (2 ^ 1023 + 2 ^ 1023) = PosInf"
    unfolding fl_def
    by (subst round_double_eval[where e = 1024]) (simp_all add: round_even_def Let_def)
  then show ?thesis by simp
qed




subsection \<open>Connecting lines, legend and popup\<close>

lemma day_runs_concat: "concat (day_runs ps) = ps"
  by (induction ps) (auto split: list.splits)

lemma day_runs_uniform:
  "r \<in> set (day_runs ps) \<Longrightarrow> r \<noteq> [] \<and> (\<forall>p \<in> set r. get_day p = get_day (hd r))"
  by (induction ps arbitrary: r) (auto split: list.splits if_splits)

lemma day_runs_successive:
  "successively (\<lambda>r s. get_day (last r) \<noteq> get_day (hd s)) (day_runs ps)"
proof (induction ps)
  case Nil
  then show ?case by simp
next
  case (Cons p ps)
  show ?case
  proof (cases "day_runs ps")
    case Nil
    then show ?thesis by simp
  next
    case (Cons r rs)
    with day_runs_hd[OF Cons] Cons.IH show ?thesis
      by (cases rs) (auto simp: successively_Cons)
  qed
qed

lemma day_runs_adjacent:
  "Suc i < length (day_runs ps) \<Longrightarrow>
   get_day (last (day_runs ps ! i)) \<noteq> get_day (hd (day_runs ps ! Suc i))"
  using day_runs_successive[of ps] by (simp add: successively_conv_nth)

lemma run_lines_nth:
  "i < length rs \<Longrightarrow>
   run_lines seed rs ! i =
     dashed_line ((if i = 0 then seed else [coord_of (last (rs ! (i - 1)))]) @ map coord_of (rs ! i))
       (get_day (hd (rs ! i)))"
proof (induction rs arbitrary: seed i)
  case Nil
  then show ?case by simp
next
  case (Cons r rs)
  show ?case
  proof (cases i)
    case 0
    then show ?thesis by simp
  next
    case (Suc j)
    with Cons.prems have "j < length rs" by simp
    from Cons.IH[OF this, of "[coord_of (last r)]"] Suc show ?thesis
      by (cases j) simp_all
  qed
qed

lemma marker_not_polyline: "is_Marker x \<Longrightarrow> \<not> is_PolyLine x"
  by (cases x) simp_all

lemma filter_polylines:
  "list_all is_Marker mks \<Longrightarrow> list_all is_PolyLine ls \<Longrightarrow>
   filter is_PolyLine (mks @ ls @ [FitBounds b]) = ls"
  by (induction mks) (auto simp: list_all_iff filter_id_conv marker_not_polyline)

text \<open>
  C3: when two or more records pass the filter, the connecting lines follow the partition
  of the filtered sequence into maximal runs of consecutive records with the same day:
  the runs concatenate to the sequence, each run is non-empty and of one day, and
  neighbouring runs differ in day. There is one polyline per run, dashed (weight 3,
  opacity 0.7, dash pattern 10) and in the palette colour of the run's day; the first
  holds the coordinates of its run, and every later one starts with the last coordinate of
  the run before it, followed by the coordinates of its own run.
\<close>

theorem C3_day_run_polylines:
  assumes "2 \<le> length (filter valid_place places)"
  shows "\<exists>m. create_itinerary_map places center zoom = Inr m \<and>
     (let vs = filter valid_place places; runs = day_runs vs in
        concat runs = vs
      \<and> (\<forall>r \<in> set runs. r \<noteq> [] \<and> (\<forall>p \<in> set r. get_day p = get_day (hd r)))
      \<and> (\<forall>i. Suc i < length runs \<longrightarrow> get_day (last (runs ! i)) \<noteq> get_day (hd (runs ! Suc i)))
      \<and> length (polylines_of m) = length runs
      \<and> (\<forall>i < length runs. polylines_of m ! i =
            PolyLine ((if i = 0 then [] else [coord_of (last (runs ! (i - 1)))])
                        @ map coord_of (runs ! i))
              3 (day_colors ! nat ((get_day (hd (runs ! i)) - 1) mod 7)) 0.7 (lit ''10'')))"
proof -
  define vs where "vs = filter valid_place places"
  have ne: "filter valid_place places \<noteq> []" and gt: "1 < length vs"
    using assms by (auto simp: vs_def)
  from render_structure[OF ne, of center zoom] gt
  obtain m mks where m: "create_itinerary_map places center zoom = Inr m"
    and ch: "children m = mks @ run_lines [] (day_runs vs) @ [FitBounds (map coord_of vs)]"
    and mk: "list_all is_Marker mks"
    unfolding vs_def[symmetric] by auto
  have pl: "polylines_of m = run_lines [] (day_runs vs)"
    unfolding polylines_of_def ch by (rule filter_polylines[OF mk run_lines_polylines])
  have "\<forall>i < length (day_runs vs). polylines_of m ! i =
            PolyLine ((if i = 0 then [] else [coord_of (last (day_runs vs ! (i - 1)))])
                        @ map coord_of (day_runs vs ! i))
              3 (day_colors ! nat ((get_day (hd (day_runs vs ! i)) - 1) mod 7)) 0.7 (lit ''10'')"
    by (simp add: pl run_lines_nth dashed_line_def palette_color_def)
  moreover have "length (polylines_of m) = length (day_runs vs)"
    by (simp add: pl length_run_lines)
  moreover have "\<forall>r \<in> set (day_runs vs). r \<noteq> [] \<and> (\<forall>p \<in> set r. get_day p = get_day (hd r))"
    using day_runs_uniform by blast
  moreover have "\<forall>i. Suc i < length (day_runs vs) \<longrightarrow>
      get_day (last (day_runs vs ! i)) \<noteq> get_day (hd (day_runs vs ! Suc i))"
    using day_runs_adjacent by blast
  ultimately show ?thesis
    using m unfolding Let_def vs_def[symmetric] by (intro exI[of _ m] conjI day_runs_concat) 
qed

lemma day_runs_trip:
  "day_runs trip =
     [[stop 48.8584 2.2945 1, stop 48.8606 2.3376 1], [stop 48.853 2.3499 2], [stop 48.8867 2.3431 1]]"
  by (simp add: trip_def get_day_stop)

lemma valid_trip: "filter valid_place trip = trip"
  by (simp add: trip_def valid_stop)

theorem C3_day_run_polylines_witness:
  "2 \<le> length (filter valid_place trip) \<and>
   (\<exists>m. create_itinerary_map trip None 12 = Inr m \<and> length (polylines_of m) = 3
      \<and> polylines_of m ! 0 = PolyLine [(48.8584, 2.2945), (48.8606, 2.3376)] 3 (lit ''#e74c3c'') 0.7 (lit ''10'')
      \<and> polylines_of m ! 1 = PolyLine [(48.8606, 2.3376), (48.853, 2.3499)] 3 (lit ''#3498db'') 0.7 (lit ''10'')
      \<and> polylines_of m ! 2 = PolyLine [(48.853, 2.3499), (48.8867, 2.3431)] 3 (lit ''#e74c3c'') 0.7 (lit ''10''))"
proof -
  have h: "2 \<le> length (filter valid_place trip)"
    unfolding valid_trip by (simp add: trip_def)
  from C3_day_run_polylines[OF h, of None 12]
  obtain m where m: "create_itinerary_map trip None 12 = Inr m"
    and len: "length (polylines_of m) = length (day_runs trip)"
    and nth: "\<forall>i < length (day_runs trip). polylines_of m ! i =
            PolyLine ((if i = 0 then [] else [coord_of (last (day_runs trip ! (i - 1)))])
                        @ map coord_of (day_runs trip ! i))
              3 (day_colors ! nat ((get_day (hd (day_runs trip ! i)) - 1) mod 7)) 0.7 (lit ''10'')"
    unfolding Let_def valid_trip by blast
  have "length (polylines_of m) = 3" using len by (simp add: day_runs_trip)
  moreover have "polylines_of m ! 0 = PolyLine [(48.8584, 2.2945), (48.8606, 2.3376)] 3 (lit ''#e74c3c'') 0.7 (lit ''10'')"
    using nth[rule_format, of 0] by (simp add: day_runs_trip coord_of_stop get_day_stop day_colors_def)
  moreover have "polylines_of m ! 1 = PolyLine [(48.8606, 2.3376), (48.853, 2.3499)] 3 (lit ''#3498db'') 0.7 (lit ''10'')"
    using nth[rule_format, of 1] by (simp add: day_runs_trip coord_of_stop get_day_stop day_colors_def)
  moreover have "polylines_of m ! 2 = PolyLine [(48.853, 2.3499), (48.8867, 2.3431)] 3 (lit ''#e74c3c'') 0.7 (lit ''10'')"
    using nth[rule_format, of 2] by (simp add: day_runs_trip coord_of_stop get_day_stop day_colors_def)
  ultimately show ?thesis using h m by blast
qed

lemma lit_append: "lit (xs @ ys) = lit xs @ lit ys"
  by (simp add: lit_def)

lemma digits_value_snoc: "digits_value (s @ [c]) = 10 * digits_value s + (c - 48)"
  by (simp add: digits_value_def)

lemma str_nat_small: "n < 10 \<Longrightarrow> str_nat n = [48 + n]"
  by (subst str_nat.simps) (simp)

lemma str_nat_large: "\<not> n < 10 \<Longrightarrow> str_nat n = str_nat (n div 10) @ [48 + n mod 10]"
  by (subst str_nat.simps) (simp)

lemma digits_value_str_nat: "digits_value (str_nat n) = n"
proof (induction n rule: str_nat.induct)
  case (1 n)
  show ?case
  proof (cases "n < 10")
    case True
    then show ?thesis by (simp add: str_nat_small digits_value_def)
  next
    case False
    with 1 have "digits_value (str_nat (n div 10)) = n div 10" by blast
    with False show ?thesis
      by (simp add: str_nat_large digits_value_snoc)
  qed
qed

lemma str_nat_digits: "set (str_nat n) \<subseteq> {48..57}"
proof (induction n rule: str_nat.induct)
  case (1 n)
  show ?case
  proof (cases "n < 10")
    case True
    then show ?thesis by (simp add: str_nat_small)
  next
    case False
    with 1 have "set (str_nat (n div 10)) \<subseteq> {48..57}" by blast
    moreover have "n mod 10 < 10" by simp
    ultimately show ?thesis using False
      by (simp add: str_nat_large)
  qed
qed

lemma str_nat_nonempty: "str_nat n \<noteq> []"
  by (cases "n < 10") (simp_all add: str_nat_small str_nat_large)

lemma int_of_str_str_int: "int_of_str (str_int i) = i"
proof (cases "i < 0")
  case True
  then show ?thesis
    by (simp add: int_of_str_def str_int_def digits_value_str_nat)
next
  case False
  obtain c cs where cs: "str_nat (nat i) = c # cs"
    using str_nat_nonempty[of "nat i"] by (cases "str_nat (nat i)") auto
  with str_nat_digits[of "nat i"] have "c \<noteq> 45" by auto
  with False cs digits_value_str_nat[of "nat i"] show ?thesis
    by (simp add: int_of_str_def str_int_def)
qed

lemma str_int_chars: "str_int i \<noteq> [] \<and> set (str_int i) \<subseteq> insert 45 {48..57}"
  using str_nat_digits[of "nat i"] str_nat_digits[of "nat (- i)"] str_nat_nonempty[of "nat i"]
  by (auto simp: str_int_def)

lemma legend_entry_shape:
  "\<exists>a b e. legend_entry c d =
     a @ lit ''background-color: '' @ c @ b @ lit ''<span>Day '' @ str_int d @ lit ''</span>'' @ e"
proof -
  have 1: "lit ''                    background-color: '' = lit ''                    '' @ lit ''background-color: ''"
    unfolding lit_append[symmetric] by simp
  have 2: "lit ''                <span>Day '' = lit ''                '' @ lit ''<span>Day ''"
    unfolding lit_append[symmetric] by simp
  have 3: "lit ''</span>\<newline>'' = lit ''</span>'' @ lit ''\<newline>''"
    unfolding lit_append[symmetric] by simp
  show ?thesis
    unfolding legend_entry_def 1 2 3 append_assoc
    by (metis append_assoc)
qed

lemma legend_frame_items:
  "sublist
     (lit ''Itinerary</div>\<newline>'' @ lit ''            '' @ items @ lit ''\<newline>'' @ lit ''        </div>'')
     (legend_frame items)"
proof -
  have 1: "lit ''            <div style=\"font-weight: bold; margin-bottom: 8px;\">Itinerary</div>\<newline>''
           = lit ''            <div style=\"font-weight: bold; margin-bottom: 8px;\">'' @ lit ''Itinerary</div>\<newline>''"
    unfolding lit_append[symmetric] by simp
  have 2: "lit ''        </div>\<newline>'' = lit ''        </div>'' @ lit ''\<newline>''"
    unfolding lit_append[symmetric] by simp
  show ?thesis
    unfolding legend_frame_def 1 2 sublist_def append_assoc
    by (metis append_assoc)
qed

text \<open>
  C5: when at least one record passes the filter, the map carries exactly one legend, the
  text \<^verbatim>\<open>_create_legend_html\<close> returns. Right after its title the legend holds the entries,
  one for each element of the list of the distinct day values of the filtered records in
  ascending order, and nothing between them; the number of entries is the number of
  distinct days. The entry of a day has a swatch in the palette colour at index
  (day - 1) mod 7 and the label "Day" followed by the decimal numeral of the day.
\<close>

theorem C5_legend:
  assumes "filter valid_place places \<noteq> []"
  shows "\<exists>m ds html. create_itinerary_map places center zoom = Inr m
           \<and> sorted ds \<and> distinct ds \<and> set ds = get_day ` set (filter valid_place places)
           \<and> length ds = card (get_day ` set (filter valid_place places))
           \<and> create_legend_html (filter valid_place places) day_colors = Inr html
           \<and> root_html m = [html]
           \<and> html = legend_frame (concat (map (\<lambda>d. legend_entry (day_colors ! nat ((d - 1) mod 7)) d) ds))
           \<and> sublist
                (lit ''Itinerary</div>\<newline>'' @ lit ''            ''
                   @ concat (map (\<lambda>d. legend_entry (day_colors ! nat ((d - 1) mod 7)) d) ds)
                   @ lit ''\<newline>'' @ lit ''        </div>'')
                html
           \<and> (\<forall>d \<in> set ds. \<exists>a b e. legend_entry (day_colors ! nat ((d - 1) mod 7)) d =
                 a @ lit ''background-color: '' @ day_colors ! nat ((d - 1) mod 7) @ b
                   @ lit ''<span>Day '' @ str_int d @ lit ''</span>'' @ e)
           \<and> (\<forall>d \<in> set ds. int_of_str (str_int d) = d \<and> str_int d \<noteq> []
                 \<and> set (str_int d) \<subseteq> insert 45 {48..57})"
proof -
  define ds where "ds = sorted_list_of_set (get_day ` set (filter valid_place places))"
  define html where
    "html = legend_frame (concat (map (\<lambda>d. legend_entry (day_colors ! nat ((d - 1) mod 7)) d) ds))"
  from render_structure[OF assms, of center zoom]
  obtain m where m: "create_itinerary_map places center zoom = Inr m"
    and r: "root_html m = [legend_of ds]"
    unfolding ds_def by auto
  have fin: "finite (get_day ` set (filter valid_place places))" by simp
  have "sorted ds" "distinct ds" "set ds = get_day ` set (filter valid_place places)"
    "length ds = card (get_day ` set (filter valid_place places))"
    unfolding ds_def using fin by simp_all
  moreover have "create_legend_html (filter valid_place places) day_colors = Inr html"
    by (simp add: create_legend_html_palette ds_def html_def palette_color_def)
  moreover have "root_html m = [html]"
    by (simp add: r legend_of_def html_def palette_color_def)
  moreover have "sublist
                (lit ''Itinerary</div>\<newline>'' @ lit ''            ''
                   @ concat (map (\<lambda>d. legend_entry (day_colors ! nat ((d - 1) mod 7)) d) ds)
                   @ lit ''\<newline>'' @ lit ''        </div>'')
                html"
    unfolding html_def by (rule legend_frame_items)
  moreover have "\<forall>d \<in> set ds. \<exists>a b e. legend_entry (day_colors ! nat ((d - 1) mod 7)) d =
                 a @ lit ''background-color: '' @ day_colors ! nat ((d - 1) mod 7) @ b
                   @ lit ''<span>Day '' @ str_int d @ lit ''</span>'' @ e"
    using legend_entry_shape by blast
  moreover have "\<forall>d \<in> set ds. int_of_str (str_int d) = d \<and> str_int d \<noteq> []
                 \<and> set (str_int d) \<subseteq> insert 45 {48..57}"
    using str_int_chars by (simp add: int_of_str_str_int)
  ultimately show ?thesis using m html_def by blast
qed

lemma legend_text_trip:
  "legend_frame (legend_entry (lit ''#e74c3c'') 1 @ legend_entry (lit ''#3498db'') 2) =
      lit ''\<newline>'' @
      lit ''        <div style=\"\<newline>'' @
      lit ''            position: fixed;\<newline>'' @
      lit ''            bottom: 30px;\<newline>'' @
      lit ''            left: 30px;\<newline>'' @
      lit ''            background: white;\<newline>'' @
      lit ''            padding: 12px 16px;\<newline>'' @
      lit ''            border-radius: 8px;\<newline>'' @
      lit ''            box-shadow: 0 2px 10px rgba(0,0,0,0.2);\<newline>'' @
      lit ''            z-index: 1000;\<newline>'' @
      lit ''            font-family: -apple-system, BlinkMacSystemFont, 'Segoe UI', Roboto, sans-serif;\<newline>'' @
      lit ''            font-size: 13px;\<newline>'' @
      lit ''        \">\<newline>'' @
      lit ''            <div style=\"font-weight: bold; margin-bottom: 8px;\">Itinerary</div>\<newline>'' @
      lit ''            \<newline>'' @
      lit ''            <div style=\"display: flex; align-items: center; margin: 4px 0;\">\<newline>'' @
      lit ''                <div style=\"\<newline>'' @
      lit ''                    background-color: #e74c3c;\<newline>'' @
      lit ''                    width: 16px;\<newline>'' @
      lit ''                    height: 16px;\<newline>'' @
      lit ''                    border-radius: 50%;\<newline>'' @
      lit ''                    margin-right: 8px;\<newline>'' @
      lit ''                \"></div>\<newline>'' @
      lit ''                <span>Day 1</span>\<newline>'' @
      lit ''            </div>\<newline>'' @
      lit ''        \<newline>'' @
      lit ''            <div style=\"display: flex; align-items: center; margin: 4px 0;\">\<newline>'' @
      lit ''                <div style=\"\<newline>'' @
      lit ''                    background-color: #3498db;\<newline>'' @
      lit ''                    width: 16px;\<newline>'' @
      lit ''                    height: 16px;\<newline>'' @
      lit ''                    border-radius: 50%;\<newline>'' @
      lit ''                    margin-right: 8px;\<newline>'' @
      lit ''                \"></div>\<newline>'' @
      lit ''                <span>Day 2</span>\<newline>'' @
      lit ''            </div>\<newline>'' @
      lit ''        \<newline>'' @
      lit ''        </div>\<newline>'' @
      lit ''    ''"
  by (simp add: legend_frame_def legend_entry_def str_int_def str_nat_small lit_def)

theorem C5_legend_witness:
  "filter valid_place trip \<noteq> [] \<and>
   (\<exists>m. create_itinerary_map trip None 12 = Inr m
      \<and> root_html m =
     [lit ''\<newline>'' @
      lit ''        <div style=\"\<newline>'' @
      lit ''            position: fixed;\<newline>'' @
      lit ''            bottom: 30px;\<newline>'' @
      lit ''            left: 30px;\<newline>'' @
      lit ''            background: white;\<newline>'' @
      lit ''            padding: 12px 16px;\<newline>'' @
      lit ''            border-radius: 8px;\<newline>'' @
      lit ''            box-shadow: 0 2px 10px rgba(0,0,0,0.2);\<newline>'' @
      lit ''            z-index: 1000;\<newline>'' @
      lit ''            font-family: -apple-system, BlinkMacSystemFont, 'Segoe UI', Roboto, sans-serif;\<newline>'' @
      lit ''            font-size: 13px;\<newline>'' @
      lit ''        \">\<newline>'' @
      lit ''            <div style=\"font-weight: bold; margin-bottom: 8px;\">Itinerary</div>\<newline>'' @
      lit ''            \<newline>'' @
      lit ''            <div style=\"display: flex; align-items: center; margin: 4px 0;\">\<newline>'' @
      lit ''                <div style=\"\<newline>'' @
      lit ''                    background-color: #e74c3c;\<newline>'' @
      lit ''                    width: 16px;\<newline>'' @
      lit ''                    height: 16px;\<newline>'' @
      lit ''                    border-radius: 50%;\<newline>'' @
      lit ''                    margin-right: 8px;\<newline>'' @
      lit ''                \"></div>\<newline>'' @
      lit ''                <span>Day 1</span>\<newline>'' @
      lit ''            </div>\<newline>'' @
      lit ''        \<newline>'' @
      lit ''            <div style=\"display: flex; align-items: center; margin: 4px 0;\">\<newline>'' @
      lit ''                <div style=\"\<newline>'' @
      lit ''                    background-color: #3498db;\<newline>'' @
      lit ''                    width: 16px;\<newline>'' @
      lit ''                    height: 16px;\<newline>'' @
      lit ''                    border-radius: 50%;\<newline>'' @
      lit ''                    margin-right: 8px;\<newline>'' @
      lit ''                \"></div>\<newline>'' @
      lit ''                <span>Day 2</span>\<newline>'' @
      lit ''            </div>\<newline>'' @
      lit ''        \<newline>'' @
      lit ''        </div>\<newline>'' @
      lit ''    ''])"
proof -
  have h: "filter valid_place trip \<noteq> []"
    unfolding valid_trip by (simp add: trip_def)
  from C5_legend[OF h, of None 12]
  obtain m ds where m: "create_itinerary_map trip None 12 = Inr m"
    and ds: "sorted ds" "distinct ds" "set ds = get_day ` set trip"
    and r: "root_html m
               = [legend_frame (concat (map (\<lambda>d. legend_entry (day_colors ! nat ((d - 1) mod 7)) d) ds))]"
    unfolding valid_trip by blast
  have "set ds = set [1, 2]" using ds(3) by (auto simp: trip_def get_day_stop)
  with ds(1,2) have "ds = [1, 2]"
    by (intro sorted_distinct_set_unique) simp_all
  with r have "root_html m = [legend_frame (legend_entry (lit ''#e74c3c'') 1 @ legend_entry (lit ''#3498db'') 2)]"
    by (simp add: day_colors_def)
  with h m show ?thesis unfolding legend_text_trip by blast
qed

lemma sublist_skip: "sublist xs ys \<Longrightarrow> sublist xs (zs @ ys)"
  unfolding sublist_def by (metis append_assoc)

lemma sublist_chain: "sublist xs ys \<Longrightarrow> sublist ys zs \<Longrightarrow> sublist xs zs"
  unfolding sublist_def by (metis append_assoc)

lemma popup_description_html:
  "sublist
     (if descr \<noteq> [] then
        lit ''<p style=\"margin: 8px 0; color: #444; font-size: 12px;\">'' @
        (if length descr > 150 then take 150 descr @ lit ''...'' else descr) @
        lit ''</p>''
      else [])
     (create_popup_html nm descr photo d time_of_day time_icon)"
  unfolding create_popup_html_def Let_def
  apply (rule sublist_skip, rule sublist_skip, rule sublist_skip, rule sublist_skip, rule sublist_skip)
  apply (rule sublist_skip, rule sublist_skip, rule sublist_skip, rule sublist_skip, rule sublist_skip)
  apply (rule sublist_skip, rule sublist_skip, rule sublist_skip, rule sublist_skip, rule sublist_skip)
  apply (rule sublist_skip, rule sublist_skip, rule sublist_skip, rule sublist_skip, rule sublist_skip)
  apply (rule sublist_append_rightI)
  done

text \<open>
  C8: a description longer than 150 characters appears in the popup as its first 150
  characters followed by "...", inside the description paragraph; a non-empty description
  of at most 150 characters appears there unchanged; and a description of at most 150
  characters is always contained in the popup as it is.
\<close>

theorem C8_description_truncation:
  "(150 < length descr \<longrightarrow>
      sublist (lit ''<p style=\"margin: 8px 0; color: #444; font-size: 12px;\">''
                 @ take 150 descr @ lit ''...'' @ lit ''</p>'')
              (create_popup_html nm descr photo d time_of_day time_icon))
   \<and> (length descr \<le> 150 \<longrightarrow> descr \<noteq> [] \<longrightarrow>
      sublist (lit ''<p style=\"margin: 8px 0; color: #444; font-size: 12px;\">''
                 @ descr @ lit ''</p>'')
              (create_popup_html nm descr photo d time_of_day time_icon))
   \<and> (length descr \<le> 150 \<longrightarrow>
      sublist descr (create_popup_html nm descr photo d time_of_day time_icon))"
proof (intro conjI impI)
  assume "150 < length descr"
  moreover from this have "descr \<noteq> []" by auto
  ultimately show "sublist (lit ''<p style=\"margin: 8px 0; color: #444; font-size: 12px;\">''
                 @ take 150 descr @ lit ''...'' @ lit ''</p>'')
              (create_popup_html nm descr photo d time_of_day time_icon)"
    using popup_description_html[of descr nm photo d time_of_day time_icon] by simp
next
  assume "length descr \<le> 150" "descr \<noteq> []"
  then show "sublist (lit ''<p style=\"margin: 8px 0; color: #444; font-size: 12px;\">''
                 @ descr @ lit ''</p>'')
              (create_popup_html nm descr photo d time_of_day time_icon)"
    using popup_description_html[of descr nm photo d time_of_day time_icon] by simp
next
  assume le: "length descr \<le> 150"
  show "sublist descr (create_popup_html nm descr photo d time_of_day time_icon)"
  proof (cases "descr = []")
    case True
    then show ?thesis by simp
  next
    case False
    with le have "sublist (lit ''<p style=\"margin: 8px 0; color: #444; font-size: 12px;\">''
                 @ descr @ lit ''</p>'')
              (create_popup_html nm descr photo d time_of_day time_icon)"
      using popup_description_html[of descr nm photo d time_of_day time_icon] by simp
    then show ?thesis
      by (rule sublist_chain[OF sublist_appendI])
  qed
qed

theorem C8_description_truncation_witness:
  "150 < length (replicate 151 (120::nat))
   \<and> sublist (lit ''<p style=\"margin: 8px 0; color: #444; font-size: 12px;\">''
                 @ replicate 150 120 @ lit ''...'' @ lit ''</p>'')
              (create_popup_html (lit ''Louvre'') (replicate 151 120) None 1 [] pin_icon)
   \<and> length (lit ''Museum'') \<le> 150 \<and> lit ''Museum'' \<noteq> []
   \<and> sublist (lit ''<p style=\"margin: 8px 0; color: #444; font-size: 12px;\">''
                 @ lit ''Museum'' @ lit ''</p>'')
              (create_popup_html (lit ''Louvre'') (lit ''Museum'') None 1 [] pin_icon)
   \<and> sublist (lit ''Museum'') (create_popup_html (lit ''Louvre'') (lit ''Museum'') None 1 [] pin_icon)"
proof -
  have a: "150 < length (replicate 151 (120::nat))" by simp
  have b: "length (lit ''Museum'') \<le> 150" "lit ''Museum'' \<noteq> []" by (simp_all add: lit_def)
  have t: "take 150 (replicate 151 (120::nat)) = replicate 150 120" by simp
  from C8_description_truncation[of "replicate 151 120" "lit ''Louvre''" None 1 "[]" pin_icon]
    C8_description_truncation[of "lit ''Museum''" "lit ''Louvre''" None 1 "[]" pin_icon]
    a b
  show ?thesis unfolding t by blast
qed

section \<open>Properties of the extractor\<close>

lemma extract_place_info_candidate:
  "extract_place_info a d t c w =
     (if latitude (fst (lookup_place a (candidate a d t) c w)) = None
         \<or> longitude (fst (lookup_place a (candidate a d t) c w)) = None
      then None else Some (fst (lookup_place a (candidate a d t) c w)),
      snd (lookup_place a (candidate a d t) c w))"
  by (simp add: extract_place_info_def candidate_def Let_def)

lemma lookup_place_none: "lookup_place a p0 None w = (p0, w)"
  by (simp add: lookup_place_def)

lemma lookup_place_no_location:
  "act_location a = None \<or> act_location a = Some [] \<Longrightarrow> lookup_place a p0 c w = (p0, w)"
  by (auto simp: lookup_place_def split: option.splits)

lemma lookup_place_search_raises:
  assumes "act_location a = Some l" "l \<noteq> []"
    and "search_places c (act_name a @ lit '' '' @ l) (fst w) = (Inl e, s1)"
  shows "lookup_place a p0 (Some c) w = (p0, (s1, snd w @ [error_line a e]))"
  using assms by (simp add: lookup_place_def)

lemma lookup_place_photo_raises:
  assumes "act_location a = Some l" "l \<noteq> []"
    and "search_places c (act_name a @ lit '' '' @ l) (fst w) = (Inr (best # others), s1)"
    and "place_id best = Some pid" "pid \<noteq> []"
    and "get_place_photo_url c pid s1 = (Inl e, s2)"
  shows "lookup_place a p0 (Some c) w =
           (p0\<lparr>latitude := match_lat best, longitude := match_lng best\<rparr>,
            (s2, snd w @ [error_line a e]))"
  using assms by (simp add: lookup_place_def match_lat_def match_lng_def Let_def split: option.splits)

lemma extract_activities_Cons:
  "extract_activities (a # rest) d t c places w =
     extract_activities rest d t c
       (places @ (case fst (extract_place_info a d t c w) of None \<Rightarrow> [] | Some p \<Rightarrow> [p]))
       (snd (extract_place_info a d t c w))"
  by (cases "extract_place_info a d t c w") (auto split: option.splits)

lemma extract_activities_none:
  "(\<And>a w. a \<in> set acts \<Longrightarrow> fst (extract_place_info a d t c w) = None) \<Longrightarrow>
   fst (extract_activities acts d t c places w) = places"
proof (induction acts arbitrary: w)
  case Nil
  then show ?case by simp
next
  case (Cons a acts)
  have "fst (extract_place_info a d t c w) = None" using Cons.prems by simp
  moreover have "fst (extract_activities acts d t c places (snd (extract_place_info a d t c w))) = places"
    using Cons.IH Cons.prems by simp
  ultimately show ?case by (simp only: extract_activities_Cons) simp
qed

lemma extract_days_none:
  "(\<And>dy a d t w. dy \<in> set days \<Longrightarrow> a \<in> set (morning dy @ afternoon dy @ evening dy) \<Longrightarrow>
      fst (extract_place_info a d t c w) = None) \<Longrightarrow>
   fst (extract_days days c places w) = places"
proof (induction days arbitrary: w)
  case Nil
  then show ?case by simp
next
  case (Cons dy days)
  have m: "\<And>w. fst (extract_activities (morning dy) (day_number dy) (lit ''morning'') c places w) = places"
    by (rule extract_activities_none, rule Cons.prems(1)[of dy]) simp_all
  have a: "\<And>w. fst (extract_activities (afternoon dy) (day_number dy) (lit ''afternoon'') c places w) = places"
    by (rule extract_activities_none, rule Cons.prems(1)[of dy]) simp_all
  have e: "\<And>w. fst (extract_activities (evening dy) (day_number dy) (lit ''evening'') c places w) = places"
    by (rule extract_activities_none, rule Cons.prems(1)[of dy]) simp_all
  have "\<And>w. fst (extract_days days c places w) = places"
    by (rule Cons.IH, rule Cons.prems(1)) simp_all
  then show ?case by (simp add: Let_def m a e)
qed

lemma extract_plan_none:
  assumes "\<And>a d t w. a \<in> set (all_activities plan) \<Longrightarrow> fst (extract_place_info a d t c w) = None"
  shows "fst (extract_places_from_plan plan c w) = []"
proof (cases plan)
  case None
  then show ?thesis by (simp add: extract_places_from_plan_def)
next
  case (Some pl)
  have "fst (extract_days (itinerary pl) c [] w) = []"
  proof (rule extract_days_none)
    fix dy a d t w'
    assume "dy \<in> set (itinerary pl)" "a \<in> set (morning dy @ afternoon dy @ evening dy)"
    then have "a \<in> set (all_activities plan)"
      unfolding all_activities_def Some by (simp only: option.case set_concat set_map) blast
    then show "fst (extract_place_info a d t c w') = None" by (rule assms)
  qed
  then show ?thesis by (simp add: extract_places_from_plan_def Some)
qed

text \<open>
  C7: with a lookup collaborator whose every call raises, extraction returns the empty
  sequence for every plan: it returns a value, each activity is dropped.
\<close>

theorem C7_raising_collaborator:
  assumes "\<forall>q s. \<exists>e s'. search_places c q s = (Inl e, s')"
    and "\<forall>pid s. \<exists>e s'. get_place_photo_url c pid s = (Inl e, s')"
  shows "fst (extract_places_from_plan plan (Some c) w) = []"
proof (rule extract_plan_none)
  fix a d t w'
  show "fst (extract_place_info a d t (Some c) w') = None"
  proof (cases "act_location a = None \<or> act_location a = Some []")
    case True
    then show ?thesis
      by (simp add: extract_place_info_candidate lookup_place_no_location candidate_def)
  next
    case False
    then obtain l where l: "act_location a = Some l" "l \<noteq> []" by auto
    from assms(1) obtain e s1 where
      "search_places c (act_name a @ lit '' '' @ l) (fst w') = (Inl e, s1)" by blast
    from lookup_place_search_raises[OF l this] show ?thesis
      by (simp add: extract_place_info_candidate candidate_def)
  qed
qed

theorem C7_raising_collaborator_witness:
  "(\<forall>q s. \<exists>e s'. search_places failing_client q s = (Inl e, s'))
   \<and> (\<forall>pid s. \<exists>e s'. get_place_photo_url failing_client pid s = (Inl e, s'))
   \<and> fst (extract_places_from_plan (Some louvre_plan) (Some failing_client) (0, [])) = []"
proof -
  have 1: "\<forall>q s. \<exists>e s'. search_places failing_client q s = (Inl e, s')"
    by (simp add: failing_client_def)
  have 2: "\<forall>pid s. \<exists>e s'. get_place_photo_url failing_client pid s = (Inl e, s')"
    by (simp add: failing_client_def)
  from C7_raising_collaborator[OF 1 2, of "Some louvre_plan" "(0, [])"] 1 2 show ?thesis by blast
qed

text \<open>
  C10: when no lookup collaborator is supplied, or when no activity of the plan has a
  non-empty location hint, extraction returns the empty sequence, however many activities
  the plan holds.
\<close>

theorem C10_no_lookup_no_places:
  assumes "places_client = None
           \<or> (\<forall>a \<in> set (all_activities plan). act_location a = None \<or> act_location a = Some [])"
  shows "fst (extract_places_from_plan plan places_client w) = []"
proof (rule extract_plan_none)
  fix a d t w'
  assume "a \<in> set (all_activities plan)"
  with assms have "lookup_place a (candidate a d t) places_client w' = (candidate a d t, w')"
    by (auto simp: lookup_place_none lookup_place_no_location)
  then show "fst (extract_place_info a d t places_client w') = None"
    by (simp add: extract_place_info_candidate candidate_def)
qed

theorem C10_no_lookup_no_places_witness:
  "all_activities (Some louvre_plan) = [louvre, stroll]
   \<and> fst (extract_places_from_plan (Some louvre_plan) (None :: nat places_client option) (0, [])) = []
   \<and> all_activities (Some stroll_plan) = [stroll, stroll] \<and> act_location stroll = None
   \<and> fst (extract_places_from_plan (Some stroll_plan) (Some equator_client) (0, [])) = []"
proof -
  have a: "all_activities (Some louvre_plan) = [louvre, stroll]"
    by (simp add: all_activities_def louvre_plan_def)
  have b: "all_activities (Some stroll_plan) = [stroll, stroll]" "act_location stroll = None"
    by (simp_all add: all_activities_def stroll_plan_def stroll_def)
  have h1: "(None :: nat places_client option) = None
           \<or> (\<forall>a \<in> set (all_activities (Some louvre_plan)). act_location a = None \<or> act_location a = Some [])"
    by simp
  have h2: "Some equator_client = None
           \<or> (\<forall>a \<in> set (all_activities (Some stroll_plan)). act_location a = None \<or> act_location a = Some [])"
    by (simp add: b)
  from C10_no_lookup_no_places[OF h1, of "(0, [])"] C10_no_lookup_no_places[OF h2, of "(0, [])"] a b
  show ?thesis by blast
qed

lemma louvre_query: "act_location louvre = Some (lit ''Paris'')" "lit ''Paris'' \<noteq> []"
  by (simp_all add: louvre_def lit_def)

text \<open>
  C2 as stated fails: the photo-resolution call raises here, after the search call returned
  a match with both coordinates, and the activity is in the output sequence, with its
  coordinates and without a photo.
\<close>

theorem C2_photo_failure_keeps_activity:
  "get_place_photo_url photo_failing_client (lit ''abc'') 1 = (Inl (Exception (lit ''timeout'')), 2)
   \<and> extract_place_info louvre 1 (lit ''morning'') (Some photo_failing_client) (0, [])
       = (Some \<lparr>name = Some (lit ''Louvre''), latitude = Some 48.8606, longitude = Some 2.3376,
                description = Some [], photo_url = None, day = Some 1,
                time = Some (lit ''morning'')\<rparr>,
          (2, [lit ''Error fetching place info for '' @ lit ''Louvre'' @ lit '': '' @ lit ''timeout'']))
   \<and> fst (extract_places_from_plan (Some louvre_plan) (Some photo_failing_client) (0, []))
       = [\<lparr>name = Some (lit ''Louvre''), latitude = Some 48.8606, longitude = Some 2.3376,
           description = Some [], photo_url = None, day = Some 1,
           time = Some (lit ''morning'')\<rparr>]"
proof -
  have 1: "get_place_photo_url photo_failing_client (lit ''abc'') 1 = (Inl (Exception (lit ''timeout'')), 2)"
    by (simp add: photo_failing_client_def)
  have s: "search_places photo_failing_client (act_name louvre @ lit '' '' @ lit ''Paris'') (fst (0::nat, []::pystr list))
            = (Inr (louvre_match # []), 1)"
    by (simp add: photo_failing_client_def)
  have pid: "place_id louvre_match = Some (lit ''abc'')" "lit ''abc'' \<noteq> []"
    by (simp_all add: louvre_match_def lit_def)
  have 2: "extract_place_info louvre 1 (lit ''morning'') (Some photo_failing_client) (0, [])
       = (Some \<lparr>name = Some (lit ''Louvre''), latitude = Some 48.8606, longitude = Some 2.3376,
                description = Some [], photo_url = None, day = Some 1,
                time = Some (lit ''morning'')\<rparr>,
          (2, [lit ''Error fetching place info for '' @ lit ''Louvre'' @ lit '': '' @ lit ''timeout'']))"
    unfolding extract_place_info_candidate lookup_place_photo_raises[OF louvre_query s pid 1]
    by (simp add: candidate_def match_lat_def match_lng_def louvre_match_def louvre_def error_line_def)
  have 3: "extract_place_info stroll 1 t (Some photo_failing_client) w = (None, w)" for t w
    unfolding extract_place_info_candidate
    by (simp add: lookup_place_no_location stroll_def candidate_def)
  have "fst (extract_places_from_plan (Some louvre_plan) (Some photo_failing_client) (0, []))
       = [\<lparr>name = Some (lit ''Louvre''), latitude = Some 48.8606, longitude = Some 2.3376,
           description = Some [], photo_url = None, day = Some 1,
           time = Some (lit ''morning'')\<rparr>]"
    by (simp add: extract_places_from_plan_def louvre_plan_def Let_def 2 3)
  with 1 2 show ?thesis by blast
qed

text \<open>
  C2, amended: a failure raised by the lookup collaborator is caught and printed, and the
  loop goes on with the next activity. When the search call raises, the activity has no
  coordinates and is left out of the output sequence. When the photo-resolution call
  raises, the coordinates of the best match are already stored: the activity is left out
  only if that match lacks a latitude or a longitude, and is otherwise kept, with its
  coordinates and without a photo.
\<close>

theorem C2_lookup_failure_caught:
  assumes "act_location a = Some l" "l \<noteq> []"
  shows "(search_places c (act_name a @ lit '' '' @ l) (fst w) = (Inl e, s1) \<longrightarrow>
            extract_place_info a d t (Some c) w = (None, (s1, snd w @ [error_line a e]))
          \<and> extract_activities (a # rest) d t (Some c) places w
              = extract_activities rest d t (Some c) places (s1, snd w @ [error_line a e]))
       \<and> (search_places c (act_name a @ lit '' '' @ l) (fst w) = (Inr (best # others), s1)
          \<and> place_id best = Some pid \<and> pid \<noteq> [] \<and> get_place_photo_url c pid s1 = (Inl e, s2) \<longrightarrow>
            extract_place_info a d t (Some c) w
              = (if match_lat best = None \<or> match_lng best = None then None
                 else Some ((candidate a d t)\<lparr>latitude := match_lat best, longitude := match_lng best\<rparr>),
                 (s2, snd w @ [error_line a e]))
          \<and> extract_activities (a # rest) d t (Some c) places w
              = extract_activities rest d t (Some c)
                  (places @ (if match_lat best = None \<or> match_lng best = None then []
                             else [(candidate a d t)\<lparr>latitude := match_lat best,
                                                     longitude := match_lng best\<rparr>]))
                  (s2, snd w @ [error_line a e]))"
proof (intro conjI impI)
  assume s: "search_places c (act_name a @ lit '' '' @ l) (fst w) = (Inl e, s1)"
  show i: "extract_place_info a d t (Some c) w = (None, (s1, snd w @ [error_line a e]))"
    unfolding extract_place_info_candidate lookup_place_search_raises[OF assms s]
    by (simp add: candidate_def)
  show "extract_activities (a # rest) d t (Some c) places w
              = extract_activities rest d t (Some c) places (s1, snd w @ [error_line a e])"
    by (simp add: i)
next
  assume h: "search_places c (act_name a @ lit '' '' @ l) (fst w) = (Inr (best # others), s1)
          \<and> place_id best = Some pid \<and> pid \<noteq> [] \<and> get_place_photo_url c pid s1 = (Inl e, s2)"
  then have lp: "lookup_place a (candidate a d t) (Some c) w =
           ((candidate a d t)\<lparr>latitude := match_lat best, longitude := match_lng best\<rparr>,
            (s2, snd w @ [error_line a e]))"
    using lookup_place_photo_raises[OF assms, of c w best others s1 pid e s2] by blast
  show i: "extract_place_info a d t (Some c) w
              = (if match_lat best = None \<or> match_lng best = None then None
                 else Some ((candidate a d t)\<lparr>latitude := match_lat best, longitude := match_lng best\<rparr>),
                 (s2, snd w @ [error_line a e]))"
    unfolding extract_place_info_candidate lp by simp
  show "extract_activities (a # rest) d t (Some c) places w
              = extract_activities rest d t (Some c)
                  (places @ (if match_lat best = None \<or> match_lng best = None then []
                             else [(candidate a d t)\<lparr>latitude := match_lat best,
                                                     longitude := match_lng best\<rparr>]))
                  (s2, snd w @ [error_line a e])"
    unfolding extract_activities_Cons i by simp
qed

theorem C2_lookup_failure_caught_witness:
  "act_location louvre = Some (lit ''Paris'') \<and> lit ''Paris'' \<noteq> []
   \<and> extract_place_info louvre 1 (lit ''morning'') (Some failing_client) (0, [])
       = (None, (1, [error_line louvre (Exception (lit ''offline''))]))
   \<and> extract_place_info louvre 1 (lit ''morning'') (Some photo_failing_client) (0, [])
       = (Some ((candidate louvre 1 (lit ''morning''))\<lparr>latitude := Some 48.8606, longitude := Some 2.3376\<rparr>),
          (2, [error_line louvre (Exception (lit ''timeout''))]))"
proof -
  have s1: "search_places failing_client (act_name louvre @ lit '' '' @ lit ''Paris'') (fst (0::nat, []::pystr list))
            = (Inl (Exception (lit ''offline'')), 1)"
    by (simp add: failing_client_def)
  have s2: "search_places photo_failing_client (act_name louvre @ lit '' '' @ lit ''Paris'') (fst (0::nat, []::pystr list))
            = (Inr (louvre_match # []), 1)
          \<and> place_id louvre_match = Some (lit ''abc'') \<and> lit ''abc'' \<noteq> []
          \<and> get_place_photo_url photo_failing_client (lit ''abc'') 1 = (Inl (Exception (lit ''timeout'')), 2)"
    by (simp add: photo_failing_client_def louvre_match_def lit_def)
  have m: "match_lat louvre_match = Some 48.8606" "match_lng louvre_match = Some 2.3376"
    by (simp_all add: match_lat_def match_lng_def louvre_match_def)
  from C2_lookup_failure_caught[OF louvre_query, where c = failing_client and w = "(0, [])"
      and e = "Exception (lit ''offline'')" and ?s1.0 = 1 and d = 1 and t = "lit ''morning''"] s1
  have a: "extract_place_info louvre 1 (lit ''morning'') (Some failing_client) (0, [])
       = (None, (1, [error_line louvre (Exception (lit ''offline''))]))"
    by simp
  from C2_lookup_failure_caught[OF louvre_query, where c = photo_failing_client and w = "(0, [])"
      and ?s1.0 = 1 and d = 1 and t = "lit ''morning''" and best = louvre_match and others = "[]"
      and pid = "lit ''abc''" and e = "Exception (lit ''timeout'')" and ?s2.0 = 2] s2
  have b: "extract_place_info louvre 1 (lit ''morning'') (Some photo_failing_client) (0, [])
       = (Some ((candidate louvre 1 (lit ''morning''))\<lparr>latitude := Some 48.8606, longitude := Some 2.3376\<rparr>),
          (2, [error_line louvre (Exception (lit ''timeout''))]))"
    by (simp add: m)
  from a b louvre_query show ?thesis by blast
qed

lemma create_itinerary_map_filter_cong:
  assumes "filter valid_place ps = filter valid_place qs"
  shows "create_itinerary_map ps center zoom = create_itinerary_map qs center zoom"
proof (cases "filter valid_place ps = []")
  case True
  with assms show ?thesis by (simp add: fallback_map)
next
  case False
  with assms have "ps \<noteq> []" "qs \<noteq> []" by auto
  then show ?thesis
    unfolding create_itinerary_map_def by (simp only: if_False assms)
qed

lemma valid_place_iff:
  "valid_place p \<longleftrightarrow>
     latitude p \<noteq> None \<and> latitude p \<noteq> Some 0 \<and> longitude p \<noteq> None \<and> longitude p \<noteq> Some 0"
  by (auto simp: valid_place_def truthy_num_def split: option.splits)

text \<open>
  C9: the renderer's filter keeps a record only if its latitude and its longitude are
  present and different from 0. Records with a zero latitude or longitude have no effect on
  the result at all: the rendered map is the one of the input without them (markers,
  center, lines and legend alike), and the number of markers is the number of records that
  pass the filter. The extractor drops a record only when a coordinate is \<open>None\<close>: every
  record it returns has both coordinates, which may be zero, and there is an extraction
  whose single record, on the equator, the renderer discards, returning the fallback map.
\<close>

theorem C9_truthiness_filter:
  "filter valid_place places
     = filter (\<lambda>p. latitude p \<noteq> None \<and> latitude p \<noteq> Some 0
                  \<and> longitude p \<noteq> None \<and> longitude p \<noteq> Some 0) places
   \<and> create_itinerary_map places center zoom
       = create_itinerary_map
           (filter (\<lambda>p. latitude p \<noteq> Some 0 \<and> longitude p \<noteq> Some 0) places) center zoom
   \<and> (\<exists>m. create_itinerary_map places center zoom = Inr m
          \<and> length (markers_of m) = length (filter valid_place places))
   \<and> (\<forall>p. fst (extract_place_info a d t c w) = Some p \<longrightarrow>
          latitude p \<noteq> None \<and> longitude p \<noteq> None)
   \<and> (fst (extract_place_info a d t c w) = None \<longleftrightarrow>
          latitude (fst (lookup_place a (candidate a d t) c w)) = None
          \<or> longitude (fst (lookup_place a (candidate a d t) c w)) = None)
   \<and> (\<exists>p. fst (extract_places_from_plan (Some louvre_plan) (Some equator_client) (0, [])) = [p]
          \<and> latitude p = Some 0 \<and> longitude p = Some 32.58
          \<and> create_itinerary_map [p] None 12 = Inr (folium_Map (fl 48.8566, fl 2.3522) 12 None))"
proof (intro conjI)
  show "filter valid_place places
     = filter (\<lambda>p. latitude p \<noteq> None \<and> latitude p \<noteq> Some 0
                  \<and> longitude p \<noteq> None \<and> longitude p \<noteq> Some 0) places"
    by (rule filter_cong) (simp_all add: valid_place_iff)
next
  have "filter valid_place (filter (\<lambda>p. latitude p \<noteq> Some 0 \<and> longitude p \<noteq> Some 0) places)
        = filter valid_place places"
    unfolding filter_filter by (rule filter_cong) (auto simp: valid_place_iff)
  then show "create_itinerary_map places center zoom
       = create_itinerary_map
           (filter (\<lambda>p. latitude p \<noteq> Some 0 \<and> longitude p \<noteq> Some 0) places) center zoom"
    by (intro create_itinerary_map_filter_cong) simp
next
  from render_total[of places center zoom] marker_count
  show "\<exists>m. create_itinerary_map places center zoom = Inr m
          \<and> length (markers_of m) = length (filter valid_place places)"
    by blast
next
  show "\<forall>p. fst (extract_place_info a d t c w) = Some p \<longrightarrow>
          latitude p \<noteq> None \<and> longitude p \<noteq> None"
    unfolding extract_place_info_candidate by (auto split: if_splits)
next
  show "fst (extract_place_info a d t c w) = None \<longleftrightarrow>
          latitude (fst (lookup_place a (candidate a d t) c w)) = None
          \<or> longitude (fst (lookup_place a (candidate a d t) c w)) = None"
    unfolding extract_place_info_candidate by simp
next
  define p where "p = (candidate louvre 1 (lit ''morning''))\<lparr>latitude := Some 0, longitude := Some 32.58\<rparr>"
  have lp: "lookup_place louvre (candidate louvre 1 (lit ''morning'')) (Some equator_client) (0, [])
             = (p, (1, []))"
    using louvre_query by (simp add: lookup_place_def equator_client_def p_def)
  have 1: "extract_place_info louvre 1 (lit ''morning'') (Some equator_client) (0, []) = (Some p, (1, []))"
    unfolding extract_place_info_candidate lp by (simp add: p_def)
  have 2: "extract_place_info stroll 1 t (Some equator_client) w = (None, w)" for t w
    unfolding extract_place_info_candidate
    by (simp add: lookup_place_no_location stroll_def candidate_def)
  have "fst (extract_places_from_plan (Some louvre_plan) (Some equator_client) (0, [])) = [p]"
    by (simp add: extract_places_from_plan_def louvre_plan_def Let_def 1 2)
  moreover have "latitude p = Some 0" "longitude p = Some 32.58" by (simp_all add: p_def)
  moreover have "create_itinerary_map [p] None 12 = Inr (folium_Map (fl 48.8566, fl 2.3522) 12 None)"
    by (rule fallback_map) (simp add: valid_place_iff p_def)
  ultimately show "\<exists>p. fst (extract_places_from_plan (Some louvre_plan) (Some equator_client) (0, [])) = [p]
          \<and> latitude p = Some 0 \<and> longitude p = Some 32.58
          \<and> create_itinerary_map [p] None 12 = Inr (folium_Map (fl 48.8566, fl 2.3522) 12 None)"
    by blast
qed

theorem C9_truthiness_filter_witness:
  "create_itinerary_map [stop 0 32.58 1, stop 48.8566 2.3522 2, stop 51.4779 0 3] None 12
     = create_itinerary_map [stop 48.8566 2.3522 2] None 12
   \<and> (\<exists>m. create_itinerary_map [stop 0 32.58 1, stop 48.8566 2.3522 2, stop 51.4779 0 3] None 12 = Inr m
          \<and> length (markers_of m) = 1)
   \<and> fst (extract_place_info louvre 1 (lit ''morning'') (Some equator_client) (0, [])) \<noteq> None"
proof -
  have f: "filter (\<lambda>p. latitude p \<noteq> Some 0 \<and> longitude p \<noteq> Some 0)
             [stop 0 32.58 1, stop 48.8566 2.3522 2, stop 51.4779 0 3] = [stop 48.8566 2.3522 2]"
    by (simp add: stop_def)
  have v: "filter valid_place [stop 0 32.58 1, stop 48.8566 2.3522 2, stop 51.4779 0 3] = [stop 48.8566 2.3522 2]"
    by (simp add: valid_stop)
  have lp: "lookup_place louvre (candidate louvre 1 (lit ''morning'')) (Some equator_client) (0, [])
             = ((candidate louvre 1 (lit ''morning''))\<lparr>latitude := Some 0, longitude := Some 32.58\<rparr>, (1, []))"
    using louvre_query by (simp add: lookup_place_def equator_client_def)
  note c9 = C9_truthiness_filter[of "[stop 0 32.58 1, stop 48.8566 2.3522 2, stop 51.4779 0 3]" None 12
      louvre 1 "lit ''morning''" "Some equator_client" "(0, [])"]
  from c9 have a: "create_itinerary_map [stop 0 32.58 1, stop 48.8566 2.3522 2, stop 51.4779 0 3] None 12
     = create_itinerary_map [stop 48.8566 2.3522 2] None 12"
    unfolding f by (elim conjE)
  from c9 have "\<exists>m. create_itinerary_map [stop 0 32.58 1, stop 48.8566 2.3522 2, stop 51.4779 0 3] None 12 = Inr m
          \<and> length (markers_of m) = length (filter valid_place [stop 0 32.58 1, stop 48.8566 2.3522 2, stop 51.4779 0 3])"
    by (elim conjE)
  then have b: "\<exists>m. create_itinerary_map [stop 0 32.58 1, stop 48.8566 2.3522 2, stop 51.4779 0 3] None 12 = Inr m
          \<and> length (markers_of m) = 1"
    unfolding v by simp
  from c9 have "fst (extract_place_info louvre 1 (lit ''morning'') (Some equator_client) (0, [])) = None \<longleftrightarrow>
          latitude (fst (lookup_place louvre (candidate louvre 1 (lit ''morning'')) (Some equator_client) (0, []))) = None
          \<or> longitude (fst (lookup_place louvre (candidate louvre 1 (lit ''morning'')) (Some equator_client) (0, []))) = None"
    by (elim conjE)
  then have c: "fst (extract_place_info louvre 1 (lit ''morning'') (Some equator_client) (0, [])) \<noteq> None"
    unfolding lp by simp
  from a b c show ?thesis by blast
qed

end
